theory Spec2Isabelle
  imports Complex_Main "HOL-Library.Code_Target_Numeral"
begin

section \<open>JavaScript values\<close>

text \<open>
  The builders of \<^verbatim>\<open>src/index.ts\<close> take typed option records and return plain
  object literals. A JavaScript number is a binary64 value: a finite number is
  represented by its exact (rational) value, the three non-finite values are
  constructors of their own. \<open>Finite 0\<close> is the positive zero, \<open>NegZero\<close> the negative
  one.
\<close>

datatype number = Finite rat | NaN | PosInfinity | NegInfinity | NegZero

text \<open>The real number of a finite number: both zeros have the value 0.\<close>

fun real_value :: "number \<Rightarrow> rat option" where
  "real_value (Finite x) = Some x"
| "real_value NegZero = Some 0"
| "real_value _ = None"

text \<open>
  An object is the list of its own properties in insertion order; \<open>JUndefined\<close>
  is a value, so that a key holding \<^verbatim>\<open>undefined\<close> differs from a missing key.
\<close>

datatype jsval =
    JUndefined
  | JNull
  | JBool bool
  | JNum number
  | JStr string
  | JArr "jsval list"
  | JObj "(string \<times> jsval) list"

type_synonym JSONLDSchema = "(string \<times> jsval) list"

text \<open>The assignment \<^verbatim>\<open>schema[k] = v\<close>: an existing key keeps its place, a new key goes last.\<close>

fun set_prop :: "string \<Rightarrow> jsval \<Rightarrow> (string \<times> jsval) list \<Rightarrow> (string \<times> jsval) list" where
  "set_prop k v [] = [(k, v)]"
| "set_prop k v ((k', v') # ps) =
     (if k' = k then (k, v) # ps else (k', v') # set_prop k v ps)"

text \<open>Reading a property: \<open>None\<close> when the object has no such key.\<close>

definition get_prop :: "(string \<times> jsval) list \<Rightarrow> string \<Rightarrow> jsval option" where
  "get_prop obj k = map_of obj k"

definition has_prop :: "(string \<times> jsval) list \<Rightarrow> string \<Rightarrow> bool" where
  "has_prop obj k = (k \<in> set (map fst obj))"

fun field :: "jsval \<Rightarrow> string \<Rightarrow> jsval option" where
  "field (JObj ps) k = map_of ps k"
| "field _ k = None"

text \<open>
  Truthiness, as tested by \<^verbatim>\<open>if (x)\<close> and \<^verbatim>\<open>x ? a : b\<close>, of an optional string:
  \<^verbatim>\<open>undefined\<close> and the empty string are falsy.
\<close>

definition truthy :: "string option \<Rightarrow> bool" where
  "truthy s = (case s of None \<Rightarrow> False | Some v \<Rightarrow> v \<noteq> [])"

section \<open>Number.prototype.toFixed\<close>

text \<open>
  \<^verbatim>\<open>price.toFixed(2)\<close> is a built-in of the language. The model follows the steps of
  ECMA-262 (Number.prototype.toFixed), which work on the exact value of the number.
\<close>

definition digit_char :: "nat \<Rightarrow> char" where
  "digit_char d = ''0123456789'' ! d"

fun decimal :: "nat \<Rightarrow> string" where
  "decimal n = (if n < 10 then [digit_char n] else decimal (n div 10) @ [digit_char (n mod 10)])"

declare decimal.simps [simp del]

text \<open>
  Steps 6 to 12 of toFixed with \<open>f\<close> fraction digits (the builders call it with 2,
  which passes the range check of step 5). The integer \<open>n\<close> of step 11 makes
  \<open>n / 10 ^ f - x\<close> as close to zero as possible, the larger one on a tie.
  From \<open>10 ^ 21\<close> on the result is that of Number::toString, modelled below.
\<close>

definition fixed_notation :: "nat \<Rightarrow> rat \<Rightarrow> string" where
  "fixed_notation f x =
     (let n = nat \<lfloor>x * 10 ^ f + 1 / 2\<rfloor>;
          m = decimal n
      in if f \<noteq> 0 then
           (let k = length m;
                m = (if k \<le> f then replicate (f + 1 - k) CHR ''0'' @ m else m);
                k = (if k \<le> f then f + 1 else k)
            in take (k - f) m @ ''.'' @ drop (k - f) m)
         else m)"

text \<open>
  Number::toString of a finite value \<open>x \<ge> 10 ^ 21\<close>: the shortest digit string \<open>s\<close>
  (with \<open>k\<close> digits) and decimal exponent \<open>n\<close> such that \<open>s * 10 ^ (n - k)\<close> converts
  back to \<open>x\<close>, the closest such \<open>s\<close> (an even one on a tie), in exponent notation.
  Here \<open>x\<close> is the value of a binary64 number, so it is an integer with a 53-bit
  significand.
\<close>

fun bit_length :: "nat \<Rightarrow> nat" where
  "bit_length n = (if n = 0 then 0 else Suc (bit_length (n div 2)))"

declare bit_length.simps [simp del]

definition binary64_ulp :: "rat \<Rightarrow> rat" where
  "binary64_ulp x = 2 ^ (bit_length (nat \<lfloor>x\<rfloor>) - 53)"

definition reads_as :: "rat \<Rightarrow> rat \<Rightarrow> bool" where
  "reads_as x y =
     (let u = binary64_ulp x;
          m = \<lfloor>x / u\<rfloor>;
          lo = x - (if m = 2 ^ 52 then u / 4 else u / 2);
          hi = x + u / 2
      in (lo < y \<and> y < hi) \<or> (even m \<and> (y = lo \<or> y = hi)))"

definition digit_candidates :: "rat \<Rightarrow> nat \<Rightarrow> (nat \<times> nat) list" where
  "digit_candidates x k =
     (let d = length (decimal (nat \<lfloor>x\<rfloor>))
      in concat (map (\<lambda>n.
           let q = nat \<lfloor>x / 10 ^ (n - k)\<rfloor>
           in map (\<lambda>s. (s, n))
                (filter (\<lambda>s. 10 ^ (k - 1) \<le> s \<and> s < 10 ^ k \<and>
                             reads_as x (of_nat s * 10 ^ (n - k))) [q, q + 1]))
         [d, d + 1]))"

definition digit_error :: "rat \<Rightarrow> nat \<Rightarrow> nat \<times> nat \<Rightarrow> rat" where
  "digit_error x k c = \<bar>of_nat (fst c) * 10 ^ (snd c - k) - x\<bar>"

fun closest :: "rat \<Rightarrow> nat \<Rightarrow> (nat \<times> nat) \<Rightarrow> (nat \<times> nat) list \<Rightarrow> nat \<times> nat" where
  "closest x k best [] = best"
| "closest x k best (c # cs) =
     (if digit_error x k c < digit_error x k best
         \<or> (digit_error x k c = digit_error x k best \<and> even (fst c))
      then closest x k c cs else closest x k best cs)"

definition exponential :: "nat \<Rightarrow> nat \<Rightarrow> string" where
  "exponential s n =
     (let ds = decimal s; e = decimal (n - 1)
      in if length ds = 1 then ds @ ''e+'' @ e
         else take 1 ds @ ''.'' @ drop 1 ds @ ''e+'' @ e)"

definition Number_toString_large :: "rat \<Rightarrow> string" where
  "Number_toString_large x =
     (let d = length (decimal (nat \<lfloor>x\<rfloor>))
      in case List.find (\<lambda>k. digit_candidates x k \<noteq> []) [1 ..< d + 1] of
           Some k \<Rightarrow>
             (case closest x k (hd (digit_candidates x k)) (tl (digit_candidates x k)) of
                (s, n) \<Rightarrow> exponential s n)
         | None \<Rightarrow> exponential (nat \<lfloor>x\<rfloor>) d)"

definition toFixed :: "nat \<Rightarrow> number \<Rightarrow> string" where
  "toFixed f v =
     (case v of
        NaN \<Rightarrow> ''NaN''
      | PosInfinity \<Rightarrow> ''Infinity''
      | NegInfinity \<Rightarrow> ''-Infinity''
      | NegZero \<Rightarrow> fixed_notation f 0
      | Finite x0 \<Rightarrow>
          (let s = (if x0 < 0 then ''-'' else '''');
               x = (if x0 < 0 then - x0 else x0)
           in if 10 ^ 21 \<le> x then s @ Number_toString_large x
              else s @ fixed_notation f x))"

section \<open>Input types\<close>

text \<open>
  The option interfaces of the module. An optional field \<^verbatim>\<open>f?: T\<close> is a \<open>T option\<close>,
  \<open>None\<close> for \<^verbatim>\<open>undefined\<close>. Fields that share a name between interfaces carry a
  prefix naming their interface.
\<close>

record OrganizationInfo =
  org_name :: string
  org_description :: "string option"
  org_url :: string
  org_logo :: "string option"
  org_image :: "string option"
  org_telephone :: "string option"
  org_email :: "string option"
  org_priceRange :: "string option"
  org_sameAs :: "string list option"
  org_id :: "string option"

record GeoCoordinates =
  latitude :: number
  longitude :: number

record ServiceArea =
  geoMidpoint :: "GeoCoordinates option"
  geoRadius :: "string option"
  city :: "string option"
  region :: "string option"
  country :: "string option"

datatype Weekday = Monday | Tuesday | Wednesday | Thursday | Friday | Saturday | Sunday

fun weekday_string :: "Weekday \<Rightarrow> string" where
  "weekday_string Monday = ''Monday''"
| "weekday_string Tuesday = ''Tuesday''"
| "weekday_string Wednesday = ''Wednesday''"
| "weekday_string Thursday = ''Thursday''"
| "weekday_string Friday = ''Friday''"
| "weekday_string Saturday = ''Saturday''"
| "weekday_string Sunday = ''Sunday''"

record OpeningHours =
  dayOfWeek :: "Weekday list option"
  opens :: "string option"
  closes :: "string option"
  open24Hours :: "bool option"

record OrganizationSchemaOptions =
  organization :: OrganizationInfo
  areaServed :: "ServiceArea option"
  openingHoursSpecification :: "OpeningHours option"
  org_type :: "string option"

record ServiceSchemaOptions =
  svc_name :: string
  svc_description :: string
  svc_url :: string
  svc_image :: "string option"
  svc_provider :: OrganizationInfo
  svc_serviceType :: "string option"
  svc_areaServed :: "ServiceArea option"

record FAQItem =
  question :: string
  answer :: string

record BreadcrumbItem =
  bc_name :: string
  bc_url :: string

record ReviewItem =
  rv_author :: string
  rv_reviewBody :: string
  rv_reviewRating :: number
  rv_datePublished :: string

record ReviewSchemaOptions =
  rev_organization :: OrganizationInfo
  reviewCount :: number
  ratingValue :: number
  bestRating :: "number option"
  worstRating :: "number option"
  reviews :: "ReviewItem list"

datatype Availability = InStock | OutOfStock | PreOrder | Backorder | LimitedAvailability

fun availability_string :: "Availability \<Rightarrow> string" where
  "availability_string InStock = ''InStock''"
| "availability_string OutOfStock = ''OutOfStock''"
| "availability_string PreOrder = ''PreOrder''"
| "availability_string Backorder = ''Backorder''"
| "availability_string LimitedAvailability = ''LimitedAvailability''"

text \<open>The product image is \<^verbatim>\<open>string | string[]\<close>.\<close>

datatype ProductImage = ImageUrl string | ImageUrls "string list"

record ProductSchemaOptions =
  prod_name :: string
  prod_description :: string
  prod_image :: "ProductImage option"
  prod_url :: "string option"
  brand :: "string option"
  sku :: "string option"
  price :: "number option"
  priceCurrency :: "string option"
  availability :: "Availability option"

record ArticleSchemaOptions =
  headline :: string
  art_description :: "string option"
  art_image :: "string option"
  art_datePublished :: string
  dateModified :: "string option"
  art_author :: string
  publisher :: string
  publisherLogo :: "string option"
  art_url :: "string option"

record EventLocation =
  loc_name :: string
  loc_address :: "string option"

datatype EventStatus = EventScheduled | EventCancelled | EventPostponed | EventRescheduled

fun eventStatus_string :: "EventStatus \<Rightarrow> string" where
  "eventStatus_string EventScheduled = ''EventScheduled''"
| "eventStatus_string EventCancelled = ''EventCancelled''"
| "eventStatus_string EventPostponed = ''EventPostponed''"
| "eventStatus_string EventRescheduled = ''EventRescheduled''"

datatype EventAttendanceMode =
  OfflineEventAttendanceMode | OnlineEventAttendanceMode | MixedEventAttendanceMode

fun eventAttendanceMode_string :: "EventAttendanceMode \<Rightarrow> string" where
  "eventAttendanceMode_string OfflineEventAttendanceMode = ''OfflineEventAttendanceMode''"
| "eventAttendanceMode_string OnlineEventAttendanceMode = ''OnlineEventAttendanceMode''"
| "eventAttendanceMode_string MixedEventAttendanceMode = ''MixedEventAttendanceMode''"

record EventSchemaOptions =
  ev_name :: string
  ev_description :: "string option"
  startDate :: string
  endDate :: "string option"
  location :: "EventLocation option"
  ev_url :: "string option"
  ev_image :: "string option"
  eventStatus :: "EventStatus option"
  eventAttendanceMode :: "EventAttendanceMode option"

section \<open>The schema builders\<close>

text \<open>
  The statement \<^verbatim>\<open>if (x) { schema.k = x; }\<close> for an optional string \<open>x\<close>, which every
  builder repeats.
\<close>

definition assign_string :: "string \<Rightarrow> string option \<Rightarrow> JSONLDSchema \<Rightarrow> JSONLDSchema" where
  "assign_string k x schema =
     (case x of
        None \<Rightarrow> schema
      | Some v \<Rightarrow> if v \<noteq> [] then set_prop k (JStr v) schema else schema)"

text \<open>
  The organization builder, in the three parts its comments name: the optional
  organization fields, the service area, the opening hours. Each part takes the
  schema built so far and returns it with its assignments made.
\<close>

definition add_organization_fields :: "OrganizationInfo \<Rightarrow> JSONLDSchema \<Rightarrow> JSONLDSchema" where
  "add_organization_fields org schema =
     (let schema = assign_string ''@id'' (org_id org) schema;
          schema = assign_string ''description'' (org_description org) schema;
          schema = assign_string ''telephone'' (org_telephone org) schema;
          schema = assign_string ''email'' (org_email org) schema;
          schema = assign_string ''priceRange'' (org_priceRange org) schema;
          schema = assign_string ''image'' (org_image org) schema;
          schema = assign_string ''logo'' (org_logo org) schema;
          schema = (case org_sameAs org of
                      None \<Rightarrow> schema
                    | Some urls \<Rightarrow>
                        if 0 < length urls then set_prop ''sameAs'' (JArr (map JStr urls)) schema
                        else schema)
      in schema)"

definition add_area_served :: "ServiceArea option \<Rightarrow> JSONLDSchema \<Rightarrow> JSONLDSchema" where
  "add_area_served served schema =
     (case served of
        None \<Rightarrow> schema
      | Some area \<Rightarrow>
          (let city_or_nothing =
                 (case city area of
                    None \<Rightarrow> schema
                  | Some c \<Rightarrow>
                      if c \<noteq> [] then
                        set_prop ''areaServed''
                          (JObj [(''@type'', JStr ''City''), (''name'', JStr c)]) schema
                      else schema)
           in case geoMidpoint area of
                None \<Rightarrow> city_or_nothing
              | Some mid \<Rightarrow>
                  (case geoRadius area of
                     None \<Rightarrow> city_or_nothing
                   | Some radius \<Rightarrow>
                       if radius \<noteq> [] then
                         set_prop ''areaServed''
                           (JObj [(''@type'', JStr ''GeoCircle''),
                                  (''geoMidpoint'',
                                     JObj [(''@type'', JStr ''GeoCoordinates''),
                                           (''latitude'', JNum (latitude mid)),
                                           (''longitude'', JNum (longitude mid))]),
                                  (''geoRadius'', JStr radius)]) schema
                       else city_or_nothing)))"

definition add_opening_hours :: "OpeningHours option \<Rightarrow> JSONLDSchema \<Rightarrow> JSONLDSchema" where
  "add_opening_hours specification schema =
     (case specification of
        None \<Rightarrow> schema
      | Some hours \<Rightarrow>
          if open24Hours hours = Some True then set_prop ''openingHours'' (JStr ''Mo-Su'') schema
          else
            (case (dayOfWeek hours, opens hours, closes hours) of
               (Some days, Some op, Some cl) \<Rightarrow>
                 if op \<noteq> [] \<and> cl \<noteq> [] then
                   set_prop ''openingHoursSpecification''
                     (JObj [(''@type'', JStr ''OpeningHoursSpecification''),
                            (''dayOfWeek'', JArr (map (\<lambda>d. JStr (weekday_string d)) days)),
                            (''opens'', JStr op),
                            (''closes'', JStr cl)]) schema
                 else schema
             | _ \<Rightarrow> schema))"

definition createOrganizationSchema :: "OrganizationSchemaOptions \<Rightarrow> JSONLDSchema" where
  "createOrganizationSchema options =
     (let org = organization options;
          type' = (case org_type options of None \<Rightarrow> ''LocalBusiness'' | Some t \<Rightarrow> t);
          schema = [(''@context'', JStr ''https://schema.org''),
                    (''@type'', JStr type'),
                    (''name'', JStr (org_name org)),
                    (''url'', JStr (org_url org))];
          schema = add_organization_fields org schema;
          schema = add_area_served (areaServed options) schema;
          schema = add_opening_hours (openingHoursSpecification options) schema
      in schema)"

definition createServiceSchema :: "ServiceSchemaOptions \<Rightarrow> JSONLDSchema" where
  "createServiceSchema options =
     (let provider = svc_provider options;
          schema = [(''@context'', JStr ''https://schema.org''),
                    (''@type'', JStr ''Service''),
                    (''name'', JStr (svc_name options)),
                    (''description'', JStr (svc_description options)),
                    (''url'', JStr (svc_url options)),
                    (''provider'',
                       JObj [(''@type'', JStr ''LocalBusiness''),
                             (''name'', JStr (org_name provider)),
                             (''url'', JStr (org_url provider))])];
          schema = assign_string ''image'' (svc_image options) schema;
          schema = assign_string ''serviceType'' (svc_serviceType options) schema;
          schema = (case svc_areaServed options of
                      None \<Rightarrow> schema
                    | Some area \<Rightarrow>
                        (case city area of
                           None \<Rightarrow> schema
                         | Some c \<Rightarrow>
                             if c \<noteq> [] then
                               set_prop ''areaServed''
                                 (JObj [(''@type'', JStr ''City''), (''name'', JStr c)]) schema
                             else schema))
      in schema)"

definition createFAQSchema :: "FAQItem list \<Rightarrow> JSONLDSchema" where
  "createFAQSchema faqs =
     [(''@context'', JStr ''https://schema.org''),
      (''@type'', JStr ''FAQPage''),
      (''mainEntity'',
         JArr (map (\<lambda>faq.
                 JObj [(''@type'', JStr ''Question''),
                       (''name'', JStr (question faq)),
                       (''acceptedAnswer'',
                          JObj [(''@type'', JStr ''Answer''),
                                (''text'', JStr (answer faq))])]) faqs))]"

text \<open>\<^verbatim>\<open>items.map((item, index) => ...)\<close>: the callback gets each element with its index from 0.\<close>

definition createBreadcrumbSchema :: "BreadcrumbItem list \<Rightarrow> JSONLDSchema" where
  "createBreadcrumbSchema items =
     [(''@context'', JStr ''https://schema.org''),
      (''@type'', JStr ''BreadcrumbList''),
      (''itemListElement'',
         JArr (map (\<lambda>(index, item).
                 JObj [(''@type'', JStr ''ListItem''),
                       (''position'', JNum (Finite (of_nat (index + 1)))),
                       (''name'', JStr (bc_name item)),
                       (''item'', JStr (bc_url item))]) (enumerate 0 items)))]"

text \<open>The defaults of the destructuring apply when the field is \<^verbatim>\<open>undefined\<close>.\<close>

definition createReviewSchema :: "ReviewSchemaOptions \<Rightarrow> JSONLDSchema" where
  "createReviewSchema options =
     (let org = rev_organization options;
          best = (case bestRating options of None \<Rightarrow> Finite 5 | Some b \<Rightarrow> b);
          worst = (case worstRating options of None \<Rightarrow> Finite 1 | Some w \<Rightarrow> w)
      in [(''@context'', JStr ''https://schema.org''),
          (''@type'', JStr ''LocalBusiness''),
          (''name'', JStr (org_name org)),
          (''aggregateRating'',
             JObj [(''@type'', JStr ''AggregateRating''),
                   (''ratingValue'', JNum (ratingValue options)),
                   (''reviewCount'', JNum (reviewCount options)),
                   (''bestRating'', JNum best),
                   (''worstRating'', JNum worst)]),
          (''review'',
             JArr (map (\<lambda>review.
                     JObj [(''@type'', JStr ''Review''),
                           (''author'',
                              JObj [(''@type'', JStr ''Person''),
                                    (''name'', JStr (rv_author review))]),
                           (''reviewBody'', JStr (rv_reviewBody review)),
                           (''reviewRating'',
                              JObj [(''@type'', JStr ''Rating''),
                                    (''ratingValue'', JNum (rv_reviewRating review)),
                                    (''bestRating'', JNum best),
                                    (''worstRating'', JNum worst)]),
                           (''datePublished'', JStr (rv_datePublished review))])
                   (reviews options)))])"

text \<open>
  In the product builder the price is tested with \<^verbatim>\<open>price !== undefined\<close>, the currency
  for truthiness. An array is truthy, also the empty one.
\<close>

definition createProductSchema :: "ProductSchemaOptions \<Rightarrow> JSONLDSchema" where
  "createProductSchema options =
     (let schema = [(''@context'', JStr ''https://schema.org''),
                    (''@type'', JStr ''Product''),
                    (''name'', JStr (prod_name options)),
                    (''description'', JStr (prod_description options))];
          schema = (case prod_image options of
                      None \<Rightarrow> schema
                    | Some (ImageUrl u) \<Rightarrow>
                        if u \<noteq> [] then set_prop ''image'' (JStr u) schema else schema
                    | Some (ImageUrls us) \<Rightarrow> set_prop ''image'' (JArr (map JStr us)) schema);
          schema = assign_string ''url'' (prod_url options) schema;
          schema = (case brand options of
                      None \<Rightarrow> schema
                    | Some b \<Rightarrow>
                        if b \<noteq> [] then
                          set_prop ''brand'' (JObj [(''@type'', JStr ''Brand''), (''name'', JStr b)]) schema
                        else schema);
          schema = assign_string ''sku'' (sku options) schema;
          schema = (case price options of
                      None \<Rightarrow> schema
                    | Some p \<Rightarrow>
                        (case priceCurrency options of
                           None \<Rightarrow> schema
                         | Some cur \<Rightarrow>
                             if cur \<noteq> [] then
                               set_prop ''offers''
                                 (JObj [(''@type'', JStr ''Offer''),
                                        (''price'', JStr (toFixed 2 p)),
                                        (''priceCurrency'', JStr cur),
                                        (''availability'',
                                           (case availability options of
                                              Some a \<Rightarrow> JStr (''https://schema.org/'' @ availability_string a)
                                            | None \<Rightarrow> JUndefined))]) schema
                             else schema))
      in schema)"

definition createArticleSchema :: "ArticleSchemaOptions \<Rightarrow> JSONLDSchema" where
  "createArticleSchema options =
     (let schema = [(''@context'', JStr ''https://schema.org''),
                    (''@type'', JStr ''Article''),
                    (''headline'', JStr (headline options)),
                    (''datePublished'', JStr (art_datePublished options)),
                    (''author'',
                       JObj [(''@type'', JStr ''Person''),
                             (''name'', JStr (art_author options))]),
                    (''publisher'',
                       JObj [(''@type'', JStr ''Organization''),
                             (''name'', JStr (publisher options)),
                             (''logo'',
                                (case publisherLogo options of
                                   None \<Rightarrow> JUndefined
                                 | Some l \<Rightarrow>
                                     if l \<noteq> [] then
                                       JObj [(''@type'', JStr ''ImageObject''), (''url'', JStr l)]
                                     else JUndefined))])];
          schema = assign_string ''description'' (art_description options) schema;
          schema = assign_string ''image'' (art_image options) schema;
          schema = assign_string ''dateModified'' (dateModified options) schema;
          schema = (case art_url options of
                      None \<Rightarrow> schema
                    | Some u \<Rightarrow>
                        if u \<noteq> [] then
                          set_prop ''mainEntityOfPage''
                            (JObj [(''@type'', JStr ''WebPage''), (''@id'', JStr u)]) schema
                        else schema)
      in schema)"

definition createEventSchema :: "EventSchemaOptions \<Rightarrow> JSONLDSchema" where
  "createEventSchema options =
     (let schema = [(''@context'', JStr ''https://schema.org''),
                    (''@type'', JStr ''Event''),
                    (''name'', JStr (ev_name options)),
                    (''startDate'', JStr (startDate options))];
          schema = assign_string ''description'' (ev_description options) schema;
          schema = assign_string ''endDate'' (endDate options) schema;
          schema = (case location options of
                      None \<Rightarrow> schema
                    | Some loc \<Rightarrow>
                        set_prop ''location''
                          (JObj [(''@type'', JStr ''Place''),
                                 (''name'', JStr (loc_name loc)),
                                 (''address'',
                                    (case loc_address loc of
                                       None \<Rightarrow> JUndefined
                                     | Some a \<Rightarrow>
                                         if a \<noteq> [] then
                                           JObj [(''@type'', JStr ''PostalAddress''),
                                                 (''streetAddress'', JStr a)]
                                         else JUndefined))]) schema);
          schema = assign_string ''url'' (ev_url options) schema;
          schema = assign_string ''image'' (ev_image options) schema;
          schema = (case eventStatus options of
                      None \<Rightarrow> schema
                    | Some st \<Rightarrow>
                        set_prop ''eventStatus''
                          (JStr (''https://schema.org/'' @ eventStatus_string st)) schema);
          schema = (case eventAttendanceMode options of
                      None \<Rightarrow> schema
                    | Some mode \<Rightarrow>
                        set_prop ''eventAttendanceMode''
                          (JStr (''https://schema.org/'' @ eventAttendanceMode_string mode)) schema)
      in schema)"

definition mergeSchemas :: "JSONLDSchema list \<Rightarrow> JSONLDSchema list" where
  "mergeSchemas schemas = schemas"

section \<open>Decimal strings\<close>

text \<open>
  The shape of a price string of C5: an optional minus sign, at least one digit, a
  point, and exactly two digits; and the number such a string denotes.
\<close>

definition is_digit :: "char \<Rightarrow> bool" where
  "is_digit c = (c \<in> set ''0123456789'')"

definition digit_value :: "char \<Rightarrow> nat" where
  "digit_value c = of_char c - 48"

definition digits_value :: "string \<Rightarrow> nat" where
  "digits_value ds = foldl (\<lambda>a c. 10 * a + digit_value c) 0 ds"

fun unsigned :: "string \<Rightarrow> string" where
  "unsigned [] = []"
| "unsigned (c # cs) = (if c = CHR ''-'' then cs else c # cs)"

definition two_decimals :: "string \<Rightarrow> bool" where
  "two_decimals s =
     (let u = unsigned s; k = length u - 3
      in 4 \<le> length u \<and> list_all is_digit (take k u) \<and> u ! k = CHR ''.'' \<and>
         list_all is_digit (drop (k + 1) u))"

definition decimal_value :: "string \<Rightarrow> rat" where
  "decimal_value s =
     (let u = unsigned s; k = length u - 3;
          v = of_nat (digits_value (take k u)) + of_nat (digits_value (drop (k + 1) u)) / 100
      in if unsigned s = s then v else - v)"

section \<open>Binary64\<close>

text \<open>
  JSON.stringify prints a number with Number::toString and JSON.parse reads one by
  rounding the decimal value of its text to the nearest binary64 value, a tie going to
  the even significand. The rounding works on the magnitude: the quantum of a value \<open>a\<close>
  is \<open>2 powi e\<close> where \<open>e\<close> is 52 below the binary exponent of \<open>a\<close> and at least \<open>- 1074\<close>
  (the subnormal numbers); from \<open>2 ^ 1024\<close> on the result is infinite.
\<close>

definition floor_log2 :: "rat \<Rightarrow> int" where
  "floor_log2 a =
     (case quotient_of a of
        (p, q) \<Rightarrow>
          (let d = int (bit_length (nat p)) - int (bit_length (nat q))
           in if 2 powi d \<le> a then d else d - 1))"

definition exponent64 :: "rat \<Rightarrow> int" where
  "exponent64 a = max (floor_log2 a - 52) (- 1074)"

definition round_half_even :: "rat \<Rightarrow> int" where
  "round_half_even q =
     (let f = \<lfloor>q\<rfloor>; r = q - of_int f
      in if r < 1 / 2 then f else if 1 / 2 < r then f + 1 else if even f then f else f + 1)"

definition round64 :: "rat \<Rightarrow> number" where
  "round64 a =
     (if a = 0 then Finite 0
      else
        (let v = of_int (round_half_even (a / 2 powi exponent64 a)) * 2 powi exponent64 a
         in if 2 ^ 1024 \<le> v then PosInfinity else Finite v))"

text \<open>The rationals that are values of binary64 numbers: rounding leaves them as they are.\<close>

definition is_binary64 :: "rat \<Rightarrow> bool" where
  "is_binary64 x =
     (\<bar>x\<bar> < 2 ^ 1024 \<and>
      of_int \<lfloor>\<bar>x\<bar> / 2 powi exponent64 \<bar>x\<bar>\<rfloor> = \<bar>x\<bar> / 2 powi exponent64 \<bar>x\<bar>)"

section \<open>Number::toString\<close>

text \<open>
  Number::toString of a positive finite value \<open>a\<close> (ECMA-262): integers \<open>n\<close>, \<open>k\<close> and \<open>s\<close>
  with \<open>k\<close> the number of digits of \<open>s\<close>, such that \<open>s * 10 powi (n - k)\<close> is a number
  whose binary64 value is \<open>a\<close>, and \<open>k\<close> as small as possible; among several \<open>s\<close> the one
  closest to \<open>a\<close>, an even one on a tie. Seventeen digits are enough for every binary64
  value; should the search fail, the digits are those of the exact decimal expansion.
\<close>

definition decimal_exponent :: "rat \<Rightarrow> int" where
  "decimal_exponent a =
     (if 1 \<le> a then int (length (decimal (nat \<lfloor>a\<rfloor>)))
      else 1 - int (length (decimal (nat \<lfloor>1 / a\<rfloor>))))"

definition digits64 :: "rat \<Rightarrow> nat \<Rightarrow> (nat \<times> int) list" where
  "digits64 a k =
     concat (map (\<lambda>n.
        (let q = nat \<lfloor>a / 10 powi (n - int k)\<rfloor>
         in map (\<lambda>s. (s, n))
              (filter (\<lambda>s. 0 < s \<and> length (decimal s) = k \<and>
                           round64 (of_nat s * 10 powi (n - int k)) = round64 a) [q, q + 1])))
       [decimal_exponent a, decimal_exponent a + 1, decimal_exponent a + 2])"

definition digit_error64 :: "rat \<Rightarrow> nat \<times> int \<Rightarrow> rat" where
  "digit_error64 a c = \<bar>of_nat (fst c) * 10 powi (snd c - int (length (decimal (fst c)))) - a\<bar>"

fun closest64 :: "rat \<Rightarrow> (nat \<times> int) \<Rightarrow> (nat \<times> int) list \<Rightarrow> nat \<times> int" where
  "closest64 a best [] = best"
| "closest64 a best (c # cs) =
     (if digit_error64 a c < digit_error64 a best
         \<or> (digit_error64 a c = digit_error64 a best \<and> even (fst c))
      then closest64 a c cs else closest64 a best cs)"

definition exact_digits :: "rat \<Rightarrow> nat \<times> int" where
  "exact_digits a =
     (let j = nat (- exponent64 a);
          s = nat \<lfloor>a * 10 ^ j\<rfloor>
      in (s, int (length (decimal s)) - int j))"

definition shortest_digits :: "rat \<Rightarrow> nat \<times> int" where
  "shortest_digits a =
     (case List.find (\<lambda>k. digits64 a k \<noteq> []) [1 ..< 18] of
        Some k \<Rightarrow> closest64 a (hd (digits64 a k)) (tl (digits64 a k))
      | None \<Rightarrow> exact_digits a)"

text \<open>The four notations of Number::toString, by the decimal exponent \<open>n\<close>.\<close>

definition number_notation :: "string \<Rightarrow> int \<Rightarrow> string" where
  "number_notation ds n =
     (let k = int (length ds)
      in if k \<le> n \<and> n \<le> 21 then ds @ replicate (nat (n - k)) CHR ''0''
         else if 0 < n \<and> n \<le> 21 then take (nat n) ds @ ''.'' @ drop (nat n) ds
         else if - 6 < n \<and> n \<le> 0 then ''0.'' @ replicate (nat (- n)) CHR ''0'' @ ds
         else (if k = 1 then ds else take 1 ds @ ''.'' @ drop 1 ds)
              @ ''e'' @ (if 0 \<le> n - 1 then ''+'' else ''-'') @ decimal (nat \<bar>n - 1\<bar>))"

definition Number_toString_positive :: "rat \<Rightarrow> string" where
  "Number_toString_positive a =
     (case shortest_digits a of (s, n) \<Rightarrow> number_notation (decimal s) n)"

fun Number_toString :: "number \<Rightarrow> string" where
  "Number_toString NaN = ''NaN''"
| "Number_toString PosInfinity = ''Infinity''"
| "Number_toString NegInfinity = ''-Infinity''"
| "Number_toString NegZero = ''0''"
| "Number_toString (Finite x) =
     (if x = 0 then ''0''
      else if x < 0 then ''-'' @ Number_toString_positive (- x)
      else Number_toString_positive x)"

section \<open>JSON.stringify\<close>

text \<open>
  JSON.stringify without replacer and indentation (ECMA-262, SerializeJSONProperty,
  SerializeJSONObject, SerializeJSONArray, QuoteJSONString). A string of the model is
  the UTF-8 form of the JavaScript string: a character beyond ASCII is several chars of
  \<open>128\<close> and more, which QuoteJSONString copies as they are (a string with a lone
  surrogate has no UTF-8 form). The result \<open>None\<close> is \<^verbatim>\<open>undefined\<close>.
\<close>

definition hex_digit :: "nat \<Rightarrow> char" where
  "hex_digit d = ''0123456789abcdef'' ! d"

definition UnicodeEscape :: "nat \<Rightarrow> string" where
  "UnicodeEscape n =
     [CHR 0x5C, CHR ''u'', hex_digit (n div 4096 mod 16), hex_digit (n div 256 mod 16),
      hex_digit (n div 16 mod 16), hex_digit (n mod 16)]"

definition quote_char :: "char \<Rightarrow> string" where
  "quote_char c =
     (if c = CHR 0x08 then [CHR 0x5C, CHR ''b'']
      else if c = CHR 0x09 then [CHR 0x5C, CHR ''t'']
      else if c = CHR 0x0A then [CHR 0x5C, CHR ''n'']
      else if c = CHR 0x0C then [CHR 0x5C, CHR ''f'']
      else if c = CHR 0x0D then [CHR 0x5C, CHR ''r'']
      else if c = CHR 0x22 then [CHR 0x5C, CHR 0x22]
      else if c = CHR 0x5C then [CHR 0x5C, CHR 0x5C]
      else if (of_char c :: nat) < 0x20 then UnicodeEscape (of_char c)
      else [c])"

definition QuoteJSONString :: "string \<Rightarrow> string" where
  "QuoteJSONString s = [CHR 0x22] @ concat (map quote_char s) @ [CHR 0x22]"

fun join :: "string list \<Rightarrow> string" where
  "join [] = []"
| "join [t] = t"
| "join (t # u # ts) = t @ '','' @ join (u # ts)"

text \<open>
  The keys of an object are taken in the order of its own property keys: the array
  indices (the decimal forms of the integers below \<open>2 ^ 32 - 1\<close>) in ascending order,
  then the other keys in the order of insertion.
\<close>

definition is_array_index :: "string \<Rightarrow> bool" where
  "is_array_index k =
     (k \<noteq> [] \<and> list_all is_digit k \<and> (k = ''0'' \<or> hd k \<noteq> CHR ''0'') \<and>
      digits_value k < 4294967295)"

definition property_order :: "(string \<times> 'a) list \<Rightarrow> (string \<times> 'a) list" where
  "property_order ps =
     sort_key (\<lambda>p. digits_value (fst p)) (filter (\<lambda>p. is_array_index (fst p)) ps)
     @ filter (\<lambda>p. \<not> is_array_index (fst p)) ps"

definition member_text :: "string \<times> string \<Rightarrow> string" where
  "member_text p = QuoteJSONString (fst p) @ '':'' @ snd p"

text \<open>
  SerializeJSONObject gives the keys with the texts of their values, in the order of
  insertion; a property whose value has no text (\<^verbatim>\<open>undefined\<close>) is left out, an element
  of an array without text is \<^verbatim>\<open>null\<close>.
\<close>

fun SerializeJSONProperty :: "jsval \<Rightarrow> string option"
  and SerializeJSONArray :: "jsval list \<Rightarrow> string list"
  and SerializeJSONObject :: "(string \<times> jsval) list \<Rightarrow> (string \<times> string) list"
where
  "SerializeJSONProperty JUndefined = None"
| "SerializeJSONProperty JNull = Some ''null''"
| "SerializeJSONProperty (JBool b) = Some (if b then ''true'' else ''false'')"
| "SerializeJSONProperty (JNum n) =
     Some (case real_value n of Some x \<Rightarrow> Number_toString n | None \<Rightarrow> ''null'')"
| "SerializeJSONProperty (JStr s) = Some (QuoteJSONString s)"
| "SerializeJSONProperty (JArr xs) = Some (''['' @ join (SerializeJSONArray xs) @ '']'')"
| "SerializeJSONProperty (JObj ps) =
     Some (''{'' @ join (map member_text (property_order (SerializeJSONObject ps))) @ ''}'')"
| "SerializeJSONArray [] = []"
| "SerializeJSONArray (x # xs) =
     (case SerializeJSONProperty x of None \<Rightarrow> ''null'' | Some t \<Rightarrow> t) # SerializeJSONArray xs"
| "SerializeJSONObject [] = []"
| "SerializeJSONObject ((k, v) # ps) =
     (case SerializeJSONProperty v of
        None \<Rightarrow> SerializeJSONObject ps
      | Some t \<Rightarrow> (k, t) # SerializeJSONObject ps)"

definition JSON_stringify :: "jsval \<Rightarrow> string option" where
  "JSON_stringify v = SerializeJSONProperty v"

section \<open>JSON.parse\<close>

text \<open>
  JSON.parse without reviver: the JSON grammar, with white space between the tokens.
  \<open>None\<close> is a SyntaxError. The number of a number token is the binary64 value of its
  decimal value; an escape \<^verbatim>\<open>\uXXXX\<close> gives a UTF-16 code unit, and the string made of
  code units and characters is put into UTF-8 (two escapes that form a surrogate pair
  are one character; a surrogate alone is written in the same three-byte form).
\<close>

definition is_ws :: "char \<Rightarrow> bool" where
  "is_ws c = (c = CHR 0x20 \<or> c = CHR 0x09 \<or> c = CHR 0x0A \<or> c = CHR 0x0D)"

definition skip_ws :: "string \<Rightarrow> string" where
  "skip_ws s = dropWhile is_ws s"

definition hex_value :: "char \<Rightarrow> nat option" where
  "hex_value c =
     (let n = (of_char c :: nat)
      in if 48 \<le> n \<and> n \<le> 57 then Some (n - 48)
         else if 97 \<le> n \<and> n \<le> 102 then Some (n - 87)
         else if 65 \<le> n \<and> n \<le> 70 then Some (n - 55)
         else None)"

definition simple_escape :: "char \<Rightarrow> char option" where
  "simple_escape c =
     (if c = CHR 0x22 then Some (CHR 0x22)
      else if c = CHR 0x5C then Some (CHR 0x5C)
      else if c = CHR ''/'' then Some (CHR ''/'')
      else if c = CHR ''b'' then Some (CHR 0x08)
      else if c = CHR ''f'' then Some (CHR 0x0C)
      else if c = CHR ''n'' then Some (CHR 0x0A)
      else if c = CHR ''r'' then Some (CHR 0x0D)
      else if c = CHR ''t'' then Some (CHR 0x09)
      else None)"

datatype string_item = Char char | Unit nat

fun parse_chars :: "string \<Rightarrow> (string_item list \<times> string) option" where
  "parse_chars [] = None"
| "parse_chars (c # cs) =
     (if c = CHR 0x22 then Some ([], cs)
      else if c = CHR 0x5C then
        (case cs of
           [] \<Rightarrow> None
         | e # r \<Rightarrow>
             if e = CHR ''u'' then
               (case r of
                  a # b # c # d # r' \<Rightarrow>
                    (case (hex_value a, hex_value b, hex_value c, hex_value d) of
                       (Some h3, Some h2, Some h1, Some h0) \<Rightarrow>
                         (case parse_chars r' of
                            None \<Rightarrow> None
                          | Some (items, rest) \<Rightarrow>
                              Some (Unit (h3 * 4096 + h2 * 256 + h1 * 16 + h0) # items, rest))
                     | _ \<Rightarrow> None)
                | _ \<Rightarrow> None)
             else
               (case simple_escape e of
                  None \<Rightarrow> None
                | Some x \<Rightarrow>
                    (case parse_chars r of
                       None \<Rightarrow> None
                     | Some (items, rest) \<Rightarrow> Some (Char x # items, rest))))
      else if (of_char c :: nat) < 0x20 then None
      else
        (case parse_chars cs of
           None \<Rightarrow> None
         | Some (items, rest) \<Rightarrow> Some (Char c # items, rest)))"

definition utf8 :: "nat \<Rightarrow> string" where
  "utf8 cp =
     (if cp < 0x80 then [char_of cp]
      else if cp < 0x800 then [char_of (0xC0 + cp div 64), char_of (0x80 + cp mod 64)]
      else if cp < 0x10000 then
        [char_of (0xE0 + cp div 4096), char_of (0x80 + cp div 64 mod 64),
         char_of (0x80 + cp mod 64)]
      else
        [char_of (0xF0 + cp div 262144), char_of (0x80 + cp div 4096 mod 64),
         char_of (0x80 + cp div 64 mod 64), char_of (0x80 + cp mod 64)])"

fun string_of_items :: "string_item list \<Rightarrow> string" where
  "string_of_items [] = []"
| "string_of_items (Char c # items) = c # string_of_items items"
| "string_of_items (Unit h # Unit l # items) =
     (if 0xD800 \<le> h \<and> h < 0xDC00 \<and> 0xDC00 \<le> l \<and> l < 0xE000
      then utf8 (0x10000 + (h - 0xD800) * 1024 + (l - 0xDC00)) @ string_of_items items
      else utf8 h @ string_of_items (Unit l # items))"
| "string_of_items (Unit u # items) = utf8 u @ string_of_items items"

definition parse_string :: "string \<Rightarrow> (string \<times> string) option" where
  "parse_string s =
     (case s of
        [] \<Rightarrow> None
      | c # cs \<Rightarrow>
          if c = CHR 0x22 then
            (case parse_chars cs of
               None \<Rightarrow> None
             | Some (items, rest) \<Rightarrow> Some (string_of_items items, rest))
          else None)"

text \<open>
  A number token: an optional minus sign, the integer part (a single 0, or digits that
  do not start with 0), an optional fraction and an optional exponent.
\<close>

definition parse_integer_part :: "string \<Rightarrow> (string \<times> string) option" where
  "parse_integer_part s =
     (case s of
        [] \<Rightarrow> None
      | c # cs \<Rightarrow>
          if c = CHR ''0'' then Some ([c], cs)
          else if is_digit c then Some (takeWhile is_digit s, dropWhile is_digit s)
          else None)"

definition parse_fraction :: "string \<Rightarrow> (string \<times> string) option" where
  "parse_fraction s =
     (case s of
        [] \<Rightarrow> Some ([], s)
      | c # cs \<Rightarrow>
          if c = CHR ''.'' then
            (if takeWhile is_digit cs = [] then None
             else Some (takeWhile is_digit cs, dropWhile is_digit cs))
          else Some ([], s))"

definition parse_exponent :: "string \<Rightarrow> (int \<times> string) option" where
  "parse_exponent s =
     (case s of
        [] \<Rightarrow> Some (0, s)
      | c # cs \<Rightarrow>
          if c = CHR ''e'' \<or> c = CHR ''E'' then
            (let negative = (cs \<noteq> [] \<and> hd cs = CHR ''-'');
                 ds = (if cs \<noteq> [] \<and> (hd cs = CHR ''-'' \<or> hd cs = CHR ''+'') then tl cs else cs)
             in if takeWhile is_digit ds = [] then None
                else Some ((if negative then - 1 else 1) * int (digits_value (takeWhile is_digit ds)),
                           dropWhile is_digit ds))
          else Some (0, s))"

definition parse_magnitude :: "string \<Rightarrow> (rat \<times> string) option" where
  "parse_magnitude s =
     (case parse_integer_part s of
        None \<Rightarrow> None
      | Some (ip, s2) \<Rightarrow>
          (case parse_fraction s2 of
             None \<Rightarrow> None
           | Some (fp, s3) \<Rightarrow>
               (case parse_exponent s3 of
                  None \<Rightarrow> None
                | Some (e, s4) \<Rightarrow>
                    Some ((of_nat (digits_value ip) + of_nat (digits_value fp) / 10 ^ length fp)
                            * 10 powi e,
                          s4))))"

definition signed_number :: "bool \<Rightarrow> rat \<Rightarrow> number" where
  "signed_number negative a =
     (case round64 a of
        Finite v \<Rightarrow> if negative then (if v = 0 then NegZero else Finite (- v)) else Finite v
      | _ \<Rightarrow> if negative then NegInfinity else PosInfinity)"

definition parse_number :: "string \<Rightarrow> (number \<times> string) option" where
  "parse_number s =
     (let negative = (s \<noteq> [] \<and> hd s = CHR ''-'')
      in case parse_magnitude (if negative then tl s else s) of
           None \<Rightarrow> None
         | Some (a, rest) \<Rightarrow> Some (signed_number negative a, rest))"

text \<open>
  The properties of an object are created in the order of the text; a key that comes
  again overwrites the value of the first.
\<close>

definition make_object :: "(string \<times> jsval) list \<Rightarrow> jsval" where
  "make_object members = JObj (foldl (\<lambda>obj (k, v). set_prop k v obj) [] members)"

text \<open>
  The recursive descent takes fuel, one unit for each value and for each element or
  member of a list; the length of the text is enough for every text.
\<close>

fun parse_value :: "nat \<Rightarrow> string \<Rightarrow> (jsval \<times> string) option"
  and parse_elements :: "nat \<Rightarrow> string \<Rightarrow> (jsval list \<times> string) option"
  and parse_members :: "nat \<Rightarrow> string \<Rightarrow> ((string \<times> jsval) list \<times> string) option"
where
  "parse_value 0 s = None"
| "parse_value (Suc fuel) s =
     (case skip_ws s of
        [] \<Rightarrow> None
      | c # cs \<Rightarrow>
          if c = CHR ''['' then
            (case skip_ws cs of
               [] \<Rightarrow> None
             | d # ds \<Rightarrow>
                 if d = CHR '']'' then Some (JArr [], ds)
                 else
                   (case parse_elements fuel cs of
                      None \<Rightarrow> None
                    | Some (xs, rest) \<Rightarrow> Some (JArr xs, rest)))
          else if c = CHR ''{'' then
            (case skip_ws cs of
               [] \<Rightarrow> None
             | d # ds \<Rightarrow>
                 if d = CHR ''}'' then Some (JObj [], ds)
                 else
                   (case parse_members fuel cs of
                      None \<Rightarrow> None
                    | Some (ms, rest) \<Rightarrow> Some (make_object ms, rest)))
          else if c = CHR 0x22 then
            (case parse_string (c # cs) of
               None \<Rightarrow> None
             | Some (str, rest) \<Rightarrow> Some (JStr str, rest))
          else if take 4 (c # cs) = ''null'' then Some (JNull, drop 4 (c # cs))
          else if take 4 (c # cs) = ''true'' then Some (JBool True, drop 4 (c # cs))
          else if take 5 (c # cs) = ''false'' then Some (JBool False, drop 5 (c # cs))
          else
            (case parse_number (c # cs) of
               None \<Rightarrow> None
             | Some (n, rest) \<Rightarrow> Some (JNum n, rest)))"
| "parse_elements 0 s = None"
| "parse_elements (Suc fuel) s =
     (case parse_value fuel s of
        None \<Rightarrow> None
      | Some (x, rest) \<Rightarrow>
          (case skip_ws rest of
             [] \<Rightarrow> None
           | c # cs \<Rightarrow>
               if c = CHR '']'' then Some ([x], cs)
               else if c = CHR '','' then
                 (case parse_elements fuel cs of
                    None \<Rightarrow> None
                  | Some (xs, rest') \<Rightarrow> Some (x # xs, rest'))
               else None))"
| "parse_members 0 s = None"
| "parse_members (Suc fuel) s =
     (case parse_string (skip_ws s) of
        None \<Rightarrow> None
      | Some (k, rest) \<Rightarrow>
          (case skip_ws rest of
             [] \<Rightarrow> None
           | c # cs \<Rightarrow>
               if c = CHR '':'' then
                 (case parse_value fuel cs of
                    None \<Rightarrow> None
                  | Some (v, rest') \<Rightarrow>
                      (case skip_ws rest' of
                         [] \<Rightarrow> None
                       | d # ds \<Rightarrow>
                           if d = CHR ''}'' then Some ([(k, v)], ds)
                           else if d = CHR '','' then
                             (case parse_members fuel ds of
                                None \<Rightarrow> None
                              | Some (ms, rest'') \<Rightarrow> Some ((k, v) # ms, rest''))
                           else None))
               else None))"

definition JSON_parse :: "string \<Rightarrow> jsval option" where
  "JSON_parse text =
     (case parse_value (length text) text of
        None \<Rightarrow> None
      | Some (v, rest) \<Rightarrow> if skip_ws rest = [] then Some v else None)"

section \<open>The serializer\<close>

text \<open>
  The serializer passes one schema (an object) or an array of schemas to
  \<^verbatim>\<open>JSON.stringify\<close>.
\<close>

fun isArray :: "jsval \<Rightarrow> bool" where
  "isArray (JArr _) = True"
| "isArray _ = False"

fun isObject :: "jsval \<Rightarrow> bool" where
  "isObject (JObj _) = True"
| "isObject _ = False"

definition createJsonLdScript :: "jsval \<Rightarrow> string option" where
  "createJsonLdScript schema = JSON_stringify (if isArray schema then schema else schema)"

section \<open>JSON-representable values\<close>

text \<open>
  The values that JSON has: null, the booleans, the finite numbers, strings, arrays and
  objects of such values. The list of an object holds each key once, in the order of
  the keys of the object (array indices first). \<open>json_value\<close> admits both zeros, \<open>json_representable\<close> the positive one only; \<open>positive_zeros\<close> puts the
  positive zero for every negative one.
\<close>

fun json_number :: "number \<Rightarrow> bool" where
  "json_number (Finite x) = is_binary64 x"
| "json_number NegZero = True"
| "json_number _ = False"

fun json_value :: "jsval \<Rightarrow> bool"
  and json_values :: "jsval list \<Rightarrow> bool"
  and json_members :: "(string \<times> jsval) list \<Rightarrow> bool"
where
  "json_value JUndefined = False"
| "json_value JNull = True"
| "json_value (JBool b) = True"
| "json_value (JNum n) = json_number n"
| "json_value (JStr s) = True"
| "json_value (JArr xs) = json_values xs"
| "json_value (JObj ps) = (distinct (map fst ps) \<and> property_order ps = ps \<and> json_members ps)"
| "json_values [] = True"
| "json_values (x # xs) = (json_value x \<and> json_values xs)"
| "json_members [] = True"
| "json_members ((k, v) # ps) = (json_value v \<and> json_members ps)"

fun positive_zeros :: "jsval \<Rightarrow> jsval"
  and positive_zeros_list :: "jsval list \<Rightarrow> jsval list"
  and positive_zeros_members :: "(string \<times> jsval) list \<Rightarrow> (string \<times> jsval) list"
where
  "positive_zeros (JNum n) = JNum (if n = NegZero then Finite 0 else n)"
| "positive_zeros (JArr xs) = JArr (positive_zeros_list xs)"
| "positive_zeros (JObj ps) = JObj (positive_zeros_members ps)"
| "positive_zeros JUndefined = JUndefined"
| "positive_zeros JNull = JNull"
| "positive_zeros (JBool b) = JBool b"
| "positive_zeros (JStr s) = JStr s"
| "positive_zeros_list [] = []"
| "positive_zeros_list (x # xs) = positive_zeros x # positive_zeros_list xs"
| "positive_zeros_members [] = []"
| "positive_zeros_members ((k, v) # ps) = (k, positive_zeros v) # positive_zeros_members ps"

definition json_representable :: "jsval \<Rightarrow> bool" where
  "json_representable v = (json_value v \<and> positive_zeros v = v)"

text \<open>The fuel that parsing the text of a value takes.\<close>

fun nodes :: "jsval \<Rightarrow> nat"
  and nodes_list :: "jsval list \<Rightarrow> nat"
  and nodes_members :: "(string \<times> jsval) list \<Rightarrow> nat"
where
  "nodes (JArr xs) = 1 + nodes_list xs"
| "nodes (JObj ps) = 1 + nodes_members ps"
| "nodes JUndefined = 1"
| "nodes JNull = 1"
| "nodes (JBool b) = 1"
| "nodes (JNum n) = 1"
| "nodes (JStr s) = 1"
| "nodes_list [] = 0"
| "nodes_list (x # xs) = 1 + nodes x + nodes_list xs"
| "nodes_members [] = 0"
| "nodes_members ((k, v) # ps) = 1 + nodes v + nodes_members ps"

text \<open>What may follow a value in a text: nothing, a comma, or a closing bracket or brace.\<close>

definition delimited :: "string \<Rightarrow> bool" where
  "delimited rest = (rest = [] \<or> hd rest = CHR '','' \<or> hd rest = CHR '']'' \<or> hd rest = CHR ''}'')"

text \<open>
  What the parser makes of the text that QuoteJSONString gives for one character: the
  character itself, or the code unit of its escape.
\<close>

definition item_of :: "char \<Rightarrow> string_item" where
  "item_of c =
     (if c \<in> {CHR 0x08, CHR 0x09, CHR 0x0A, CHR 0x0C, CHR 0x0D} then Char c
      else if (of_char c :: nat) < 0x20 then Unit (of_char c)
      else Char c)"

text \<open>
  The shape of a text: that of an array is in brackets, that of an object in braces.
\<close>

definition array_text :: "string \<Rightarrow> bool" where
  "array_text t = (t \<noteq> [] \<and> hd t = CHR ''['' \<and> last t = CHR '']'')"

definition object_text :: "string \<Rightarrow> bool" where
  "object_text t = (t \<noteq> [] \<and> hd t = CHR ''{'' \<and> last t = CHR ''}'')"

section \<open>Properties of objects\<close>

lemma map_of_set_prop:
  "map_of (set_prop k v ps) k' = (if k' = k then Some v else map_of ps k')"
  by (induction ps) auto

lemma map_fst_set_prop:
  "map fst (set_prop k v ps) = (if k \<in> set (map fst ps) then map fst ps else map fst ps @ [k])"
  by (induction ps) force+

lemma keys_set_prop: "set (map fst (set_prop k v ps)) = insert k (set (map fst ps))"
  by (auto simp: map_fst_set_prop)

lemma get_prop_set_prop:
  "get_prop (set_prop k v ps) k' = (if k' = k then Some v else get_prop ps k')"
  by (simp add: get_prop_def map_of_set_prop)

lemma has_prop_set_prop: "has_prop (set_prop k v ps) k' = (k' = k \<or> has_prop ps k')"
  unfolding has_prop_def keys_set_prop by simp

lemma get_prop_assign_string:
  "get_prop (assign_string k x ps) k' =
     (case x of None \<Rightarrow> get_prop ps k'
      | Some v \<Rightarrow> if v \<noteq> [] \<and> k' = k then Some (JStr v) else get_prop ps k')"
  by (simp add: assign_string_def get_prop_set_prop split: option.split)

lemma has_prop_assign_string:
  "has_prop (assign_string k x ps) k' = ((truthy x \<and> k' = k) \<or> has_prop ps k')"
  by (auto simp: assign_string_def has_prop_set_prop truthy_def split: option.split)

lemma get_prop_Cons: "get_prop ((k, v) # ps) k' = (if k' = k then Some v else get_prop ps k')"
  by (simp add: get_prop_def)

lemma get_prop_Nil: "get_prop [] k = None"
  by (simp add: get_prop_def)

lemma has_prop_Cons: "has_prop ((k, v) # ps) k' = (k' = k \<or> has_prop ps k')"
  by (auto simp: has_prop_def)

lemma has_prop_Nil: "has_prop [] k = False"
  by (simp add: has_prop_def)

lemma get_prop_has_prop: "get_prop obj k = Some v \<Longrightarrow> has_prop obj k"
  unfolding get_prop_def has_prop_def by (auto dest: map_of_SomeD intro: rev_image_eqI)

lemma get_prop_assign_other:
  "k' \<noteq> k \<Longrightarrow> get_prop (assign_string k x ps) k' = get_prop ps k'"
  by (simp add: get_prop_assign_string split: option.split)

lemma has_prop_assign_other:
  "k' \<noteq> k \<Longrightarrow> has_prop (assign_string k x ps) k' = has_prop ps k'"
  by (simp add: has_prop_assign_string)

lemmas prop_simps = get_prop_set_prop has_prop_set_prop get_prop_assign_string
  has_prop_assign_string get_prop_Cons get_prop_Nil has_prop_Cons has_prop_Nil

section \<open>The product builder\<close>

lemma offers_emitted:
  assumes "has_prop (createProductSchema options) ''offers''"
  obtains p cur where
    "price options = Some p" "priceCurrency options = Some cur" "cur \<noteq> []"
  using assms
  by (auto simp: createProductSchema_def Let_def prop_simps truthy_def
           split: option.splits ProductImage.splits if_splits)

lemma get_offers:
  assumes "price options = Some p" "priceCurrency options = Some cur" "cur \<noteq> []"
  shows "get_prop (createProductSchema options) ''offers'' =
           Some (JObj [(''@type'', JStr ''Offer''),
                       (''price'', JStr (toFixed 2 p)),
                       (''priceCurrency'', JStr cur),
                       (''availability'',
                          (case availability options of
                             Some a \<Rightarrow> JStr (''https://schema.org/'' @ availability_string a)
                           | None \<Rightarrow> JUndefined))])"
  using assms by (simp add: createProductSchema_def Let_def get_prop_set_prop)

text \<open>
  C1, as the code has it: the product record has an \<open>offers\<close> field exactly when a price
  is supplied and the supplied currency is a non-empty string. The price is tested
  against \<^verbatim>\<open>undefined\<close>, the currency for truthiness.
\<close>

theorem product_offers_iff:
  "has_prop (createProductSchema options) ''offers'' \<longleftrightarrow>
     (\<exists>p cur. price options = Some p \<and> priceCurrency options = Some cur \<and> cur \<noteq> [])"
proof
  assume "has_prop (createProductSchema options) ''offers''"
  then show "\<exists>p cur. price options = Some p \<and> priceCurrency options = Some cur \<and> cur \<noteq> []"
    by (rule offers_emitted) blast
next
  assume "\<exists>p cur. price options = Some p \<and> priceCurrency options = Some cur \<and> cur \<noteq> []"
  then obtain p cur where
    "price options = Some p" "priceCurrency options = Some cur" "cur \<noteq> []"
    by blast
  then have "\<exists>offers. get_prop (createProductSchema options) ''offers'' = Some offers"
    by (simp add: get_offers)
  then show "has_prop (createProductSchema options) ''offers''"
    by (auto intro: get_prop_has_prop)
qed

text \<open>
  C1 as stated fails: with a price and the empty string as currency both fields are
  supplied, and the record has no \<open>offers\<close> field.
\<close>

theorem product_offers_counterexample:
  "\<not> has_prop (createProductSchema
       \<lparr>prod_name = ''Test'', prod_description = ''Test product'', prod_image = None,
        prod_url = None, brand = None, sku = None, price = Some (Finite (2999 / 100)),
        priceCurrency = Some '''', availability = None\<rparr>) ''offers''"
  by (simp add: createProductSchema_def Let_def prop_simps truthy_def)

text \<open>
  C6: where the product record has an \<open>offers\<close> field, the offer has an
  \<open>availability\<close> key. With an availability given its value is the string
  https://schema.org/ followed by the name of the availability; with none given
  the key is there and holds \<^verbatim>\<open>undefined\<close>.
\<close>

theorem product_availability:
  assumes "has_prop (createProductSchema options) ''offers''"
  shows "\<exists>offers.
           get_prop (createProductSchema options) ''offers'' = Some offers \<and>
           (\<forall>a. availability options = Some a \<longrightarrow>
                field offers ''availability'' =
                  Some (JStr (''https://schema.org/'' @ availability_string a))) \<and>
           (availability options = None \<longrightarrow>
                field offers ''availability'' = Some JUndefined)"
proof -
  from assms obtain p cur where
    "price options = Some p" "priceCurrency options = Some cur" "cur \<noteq> []"
    by (rule offers_emitted)
  then show ?thesis
    by (simp add: get_offers)
qed

text \<open>The two cases of C6, at an input with an availability and at one without.\<close>

theorem product_availability_witness:
  "(\<exists>offers.
      get_prop (createProductSchema
        \<lparr>prod_name = ''Premium Widget'', prod_description = ''High-quality widget'',
         prod_image = None, prod_url = None, brand = None, sku = None,
         price = Some (Finite 10), priceCurrency = Some ''USD'',
         availability = Some InStock\<rparr>) ''offers'' = Some offers \<and>
      field offers ''availability'' = Some (JStr ''https://schema.org/InStock'')) \<and>
   (\<exists>offers.
      get_prop (createProductSchema
        \<lparr>prod_name = ''Free Item'', prod_description = ''Free product'',
         prod_image = None, prod_url = None, brand = None, sku = None,
         price = Some (Finite 0), priceCurrency = Some ''USD'',
         availability = None\<rparr>) ''offers'' = Some offers \<and>
      field offers ''availability'' = Some JUndefined)"
proof -
  have "has_prop (createProductSchema
        \<lparr>prod_name = ''Premium Widget'', prod_description = ''High-quality widget'',
         prod_image = None, prod_url = None, brand = None, sku = None,
         price = Some (Finite 10), priceCurrency = Some ''USD'',
         availability = Some InStock\<rparr>) ''offers''"
    by (rule get_prop_has_prop) (simp add: get_offers)
  moreover
  have "has_prop (createProductSchema
        \<lparr>prod_name = ''Free Item'', prod_description = ''Free product'',
         prod_image = None, prod_url = None, brand = None, sku = None,
         price = Some (Finite 0), priceCurrency = Some ''USD'',
         availability = None\<rparr>) ''offers''"
    by (rule get_prop_has_prop) (simp add: get_offers)
  ultimately show ?thesis
    using product_availability [of
        "\<lparr>prod_name = ''Premium Widget'', prod_description = ''High-quality widget'',
         prod_image = None, prod_url = None, brand = None, sku = None,
         price = Some (Finite 10), priceCurrency = Some ''USD'',
         availability = Some InStock\<rparr>"]
      product_availability [of
        "\<lparr>prod_name = ''Free Item'', prod_description = ''Free product'',
         prod_image = None, prod_url = None, brand = None, sku = None,
         price = Some (Finite 0), priceCurrency = Some ''USD'',
         availability = None\<rparr>"]
    by simp
qed

subsection \<open>The price string\<close>

lemma digit_char_digit: "d < 10 \<Longrightarrow> is_digit (digit_char d) \<and> digit_value (digit_char d) = d"
proof -
  assume "d < 10"
  then have "d \<in> set [0 ..< 10]" by simp
  then show ?thesis
    by (auto simp: upt_rec is_digit_def digit_char_def digit_value_def)
qed

lemma digits_value_append:
  "digits_value (a @ b) = digits_value a * 10 ^ length b + digits_value b"
proof (induction b rule: rev_induct)
  case Nil
  then show ?case by (simp add: digits_value_def)
next
  case (snoc c b)
  have "digits_value (a @ b @ [c]) = 10 * digits_value (a @ b) + digit_value c"
    by (simp add: digits_value_def)
  also have "\<dots> = 10 * (digits_value a * 10 ^ length b + digits_value b) + digit_value c"
    by (simp add: snoc.IH)
  also have "\<dots> = digits_value a * 10 ^ length (b @ [c]) + digits_value (b @ [c])"
    by (simp add: digits_value_def algebra_simps)
  finally show ?case .
qed

lemma decimal_digits:
  "list_all is_digit (decimal n) \<and> decimal n \<noteq> [] \<and> digits_value (decimal n) = n"
proof (induction n rule: decimal.induct)
  case (1 n)
  show ?case
  proof (cases "n < 10")
    case True
    then show ?thesis
      using digit_char_digit [of n] by (simp add: decimal.simps [of n] digits_value_def)
  next
    case False
    have d: "is_digit (digit_char (n mod 10)) \<and> digit_value (digit_char (n mod 10)) = n mod 10"
      by (rule digit_char_digit) simp
    have "digits_value (decimal n) = digits_value (decimal (n div 10)) * 10 + n mod 10"
      using False d by (simp add: decimal.simps [of n] digits_value_append) (simp add: digits_value_def)
    then show ?thesis
      using False d "1.IH" by (simp add: decimal.simps [of n])
  qed
qed

lemma digits_value_zeros: "digits_value (replicate j CHR ''0'' @ m) = digits_value m"
proof -
  have "digits_value (replicate j CHR ''0'') = 0"
    by (induction j) (simp_all add: digits_value_def digit_value_def)
  then show ?thesis
    by (simp add: digits_value_append)
qed

text \<open>The fixed notation with two fraction digits: digits, a point, two digits.\<close>

lemma fixed_notation_2:
  "\<exists>a b. fixed_notation 2 x = a @ ''.'' @ b \<and> a \<noteq> [] \<and> length b = 2 \<and>
         list_all is_digit a \<and> list_all is_digit b \<and>
         digits_value a * 100 + digits_value b = nat \<lfloor>x * 100 + 1 / 2\<rfloor>"
proof -
  define n where "n = nat \<lfloor>x * 100 + 1 / 2\<rfloor>"
  define m where "m = (if length (decimal n) \<le> 2
                        then replicate (3 - length (decimal n)) CHR ''0'' @ decimal n
                        else decimal n)"
  define k where "k = (if length (decimal n) \<le> 2 then 3 else length (decimal n))"
  have fn: "fixed_notation 2 x = take (k - 2) m @ ''.'' @ drop (k - 2) m"
    by (simp add: fixed_notation_def Let_def n_def m_def k_def)
  have len: "length m = k" "3 \<le> k"
    by (auto simp: m_def k_def)
  have digits: "list_all is_digit m"
    using decimal_digits [of n] by (auto simp: m_def is_digit_def list_all_iff)
  have val: "digits_value m = n"
    using decimal_digits [of n] by (simp add: m_def digits_value_zeros)
  have "digits_value (take (k - 2) m @ drop (k - 2) m) =
          digits_value (take (k - 2) m) * 10 ^ length (drop (k - 2) m) + digits_value (drop (k - 2) m)"
    by (rule digits_value_append)
  with len val have "digits_value (take (k - 2) m) * 100 + digits_value (drop (k - 2) m) = n"
    by simp
  moreover have "take (k - 2) m \<noteq> []" "length (drop (k - 2) m) = 2"
    using len by auto
  moreover have "list_all is_digit (take (k - 2) m)" "list_all is_digit (drop (k - 2) m)"
    using digits by (auto simp: list_all_iff dest: in_set_takeD in_set_dropD)
  ultimately show ?thesis
    unfolding fn n_def by blast
qed

lemma is_digit_not_minus: "is_digit c \<Longrightarrow> c \<noteq> CHR ''-'' \<and> c \<noteq> CHR ''.''"
  by (auto simp: is_digit_def)

lemma unsigned_digits:
  assumes "a \<noteq> []" "list_all is_digit a"
  shows "unsigned (a @ r) = a @ r"
proof -
  from assms obtain c cs where "a = c # cs" "is_digit c"
    by (cases a) auto
  then show ?thesis
    using is_digit_not_minus [of c] by simp
qed

lemma two_decimals_shape:
  assumes "a \<noteq> []" "length b = 2" "list_all is_digit a" "list_all is_digit b"
    and "sign = [] \<or> sign = ''-''"
  shows "two_decimals (sign @ a @ ''.'' @ b)"
    and "decimal_value (sign @ a @ ''.'' @ b) =
           (if sign = [] then 1 else - 1) *
           (of_nat (digits_value a * 100 + digits_value b) / 100)"
proof -
  have u: "unsigned (sign @ a @ CHR ''.'' # b) = a @ CHR ''.'' # b"
    using assms(5) unsigned_digits [OF assms(1,3)] by auto
  have k: "length a + length b - 2 = length a" "Suc (length a + length b) - 3 = length a"
    using assms(2) by simp_all
  show "two_decimals (sign @ a @ ''.'' @ b)"
    using assms(1-4) by (simp add: two_decimals_def Let_def u k nth_append Suc_le_eq)
  have "unsigned (sign @ a @ CHR ''.'' # b) = sign @ a @ CHR ''.'' # b \<longleftrightarrow> sign = []"
    using assms(5) unfolding u by auto
  then show "decimal_value (sign @ a @ ''.'' @ b) =
           (if sign = [] then 1 else - 1) *
           (of_nat (digits_value a * 100 + digits_value b) / 100)"
    by (simp add: decimal_value_def Let_def u k add_divide_distrib)
qed

lemma floor_half: "\<lfloor>(1::rat) / 2\<rfloor> = 0"
  by (rule floor_unique) simp_all

lemma toFixed_small:
  assumes "\<bar>x\<bar> < 10 ^ 21"
  shows "toFixed 2 (Finite x) = (if x < 0 then ''-'' else []) @ fixed_notation 2 \<bar>x\<bar>"
  using assms by (auto simp: toFixed_def Let_def abs_if)

lemma toFixed_two_decimals:
  assumes "\<bar>x\<bar> < 10 ^ 21"
  shows "two_decimals (toFixed 2 (Finite x))"
    and "decimal_value (toFixed 2 (Finite x)) = sgn x * of_int \<lfloor>\<bar>x\<bar> * 100 + 1 / 2\<rfloor> / 100"
    and "\<bar>decimal_value (toFixed 2 (Finite x)) - x\<bar> \<le> 1 / 200"
proof -
  define sign where "sign = (if x < 0 then ''-'' else [])"
  obtain a b where ab: "fixed_notation 2 \<bar>x\<bar> = a @ ''.'' @ b" "a \<noteq> []" "length b = 2"
    "list_all is_digit a" "list_all is_digit b"
    "digits_value a * 100 + digits_value b = nat \<lfloor>\<bar>x\<bar> * 100 + 1 / 2\<rfloor>"
    using fixed_notation_2 [of "\<bar>x\<bar>"] by blast
  have s: "sign = [] \<or> sign = ''-''"
    by (simp add: sign_def)
  have eq: "toFixed 2 (Finite x) = sign @ a @ ''.'' @ b"
    using toFixed_small [OF assms] ab(1) by (simp add: sign_def)
  show "two_decimals (toFixed 2 (Finite x))"
    unfolding eq by (rule two_decimals_shape(1) [OF ab(2-5) s])
  have nonneg: "0 \<le> \<lfloor>\<bar>x\<bar> * 100 + 1 / 2\<rfloor>"
    by simp
  have val: "decimal_value (toFixed 2 (Finite x)) =
          (if sign = [] then 1 else - 1) * (of_int \<lfloor>\<bar>x\<bar> * 100 + 1 / 2\<rfloor> / 100)"
    unfolding eq two_decimals_shape(2) [OF ab(2-5) s] ab(6)
    using nonneg by simp
  have zero: "\<lfloor>\<bar>x\<bar> * 100 + 1 / 2\<rfloor> = 0" if "x = 0"
    using that by (simp add: floor_half)
  show v: "decimal_value (toFixed 2 (Finite x)) = sgn x * of_int \<lfloor>\<bar>x\<bar> * 100 + 1 / 2\<rfloor> / 100"
    unfolding val using zero by (auto simp: sign_def sgn_if)
  have "of_int \<lfloor>\<bar>x\<bar> * 100 + 1 / 2\<rfloor> \<le> \<bar>x\<bar> * 100 + 1 / 2"
    "\<bar>x\<bar> * 100 + 1 / 2 < of_int \<lfloor>\<bar>x\<bar> * 100 + 1 / 2\<rfloor> + 1"
    by linarith+
  then have "\<bar>of_int \<lfloor>\<bar>x\<bar> * 100 + 1 / 2\<rfloor> / 100 - \<bar>x\<bar>\<bar> \<le> 1 / 200"
    by linarith
  then show "\<bar>decimal_value (toFixed 2 (Finite x)) - x\<bar> \<le> 1 / 200"
    unfolding v by (auto simp: sgn_if abs_if split: if_splits)
qed

lemma toFixed_zero: "toFixed 2 (Finite 0) = ''0.00''"
  by (simp add: toFixed_def fixed_notation_def floor_half decimal.simps [of 0] digit_char_def)

lemma toFixed_NegZero: "toFixed f NegZero = toFixed f (Finite 0)"
  by (simp add: toFixed_def)

text \<open>
  C5, as the code has it: where \<open>offers\<close> is emitted and the price is a finite number
  (either zero included) of magnitude below \<open>10 ^ 21\<close>, the \<open>price\<close> of the offer is a
  string of digits with exactly two digits after the point. It denotes the price rounded to the
  nearest hundredth, a tie going away from zero, so it differs from the price by at
  most half a hundredth. The price 0 gives 0.00.
\<close>

theorem product_price_two_decimals:
  assumes "has_prop (createProductSchema options) ''offers''"
    and "price options = Some p" "real_value p = Some x" "\<bar>x\<bar> < 10 ^ 21"
  shows "\<exists>offers s.
           get_prop (createProductSchema options) ''offers'' = Some offers \<and>
           field offers ''price'' = Some (JStr s) \<and>
           two_decimals s \<and>
           decimal_value s = sgn x * of_int \<lfloor>\<bar>x\<bar> * 100 + 1 / 2\<rfloor> / 100 \<and>
           \<bar>decimal_value s - x\<bar> \<le> 1 / 200 \<and>
           (x = 0 \<longrightarrow> s = ''0.00'')"
proof -
  from assms(1) obtain p' cur where offers:
    "price options = Some p'" "priceCurrency options = Some cur" "cur \<noteq> []"
    by (rule offers_emitted)
  from assms(3) have "toFixed 2 p = toFixed 2 (Finite x)"
    by (cases p) (simp_all add: toFixed_NegZero)
  with offers assms(2) show ?thesis
    using toFixed_two_decimals [OF assms(4)] toFixed_zero
    by (simp add: get_offers)
qed

text \<open>C5 at the free item of the test suite: the price 0 gives 0.00.\<close>

theorem product_price_two_decimals_witness:
  "\<exists>offers.
     get_prop (createProductSchema
       \<lparr>prod_name = ''Free Item'', prod_description = ''Free product'', prod_image = None,
        prod_url = None, brand = None, sku = None, price = Some (Finite 0),
        priceCurrency = Some ''USD'', availability = None\<rparr>) ''offers'' = Some offers \<and>
     field offers ''price'' = Some (JStr ''0.00'')"
proof -
  have "has_prop (createProductSchema
       \<lparr>prod_name = ''Free Item'', prod_description = ''Free product'', prod_image = None,
        prod_url = None, brand = None, sku = None, price = Some (Finite 0),
        priceCurrency = Some ''USD'', availability = None\<rparr>) ''offers''"
    by (rule get_prop_has_prop) (simp add: get_offers)
  then show ?thesis
    using product_price_two_decimals [of
       "\<lparr>prod_name = ''Free Item'', prod_description = ''Free product'', prod_image = None,
        prod_url = None, brand = None, sku = None, price = Some (Finite 0),
        priceCurrency = Some ''USD'', availability = None\<rparr>" "Finite 0" 0]
    by auto
qed

text \<open>
  C5 as stated fails: the price \<^verbatim>\<open>NaN\<close> is a number, the offer is emitted, and its
  \<open>price\<close> is the string NaN, which has no decimal point.
\<close>

theorem product_price_counterexample:
  "get_prop (createProductSchema
       \<lparr>prod_name = ''Test'', prod_description = ''Test product'', prod_image = None,
        prod_url = None, brand = None, sku = None, price = Some NaN,
        priceCurrency = Some ''USD'', availability = None\<rparr>) ''offers'' =
     Some (JObj [(''@type'', JStr ''Offer''), (''price'', JStr ''NaN''),
                 (''priceCurrency'', JStr ''USD''), (''availability'', JUndefined)]) \<and>
   \<not> two_decimals ''NaN''"
  by (simp add: get_offers toFixed_def two_decimals_def)

text \<open>
  From \<open>10 ^ 21\<close> on toFixed answers in exponent notation: the bound of C5 is sharp.
\<close>

lemma ulp_1e21: "binary64_ulp 1000000000000000000000 = 131072"
  by (simp add: binary64_ulp_def bit_length.simps)

lemma decimal_1e21: "decimal 1000000000000000000000 = ''1000000000000000000000''"
  by (simp add: decimal.simps digit_char_def)

lemma reads_as_1e21: "reads_as 1000000000000000000000 1000000000000000000000"
  by (simp add: reads_as_def ulp_1e21 Let_def)

lemma digit_candidates_1e21: "digit_candidates 1000000000000000000000 1 = [(1, 22)]"
  by (simp add: digit_candidates_def decimal_1e21 Let_def reads_as_1e21 reads_as_def ulp_1e21)

lemma find_1e21:
  "List.find (\<lambda>k. digit_candidates 1000000000000000000000 k \<noteq> []) [1 ..< 23] = Some 1"
  apply (subst upt_rec)
  apply (simp only: find.simps num.simps semiring_norm)
  apply (simp only: numeral_One digit_candidates_1e21 list.distinct not_False_eq_True if_True)
  done

lemma exponential_1e21: "exponential 1 22 = ''1e+21''"
  by (simp add: exponential_def decimal.simps digit_char_def)

lemma length_1e21: "length ''1000000000000000000000'' + 1 = 23"
  by simp

lemma Number_toString_large_1e21: "Number_toString_large 1000000000000000000000 = ''1e+21''"
  by (simp only: Number_toString_large_def Let_def floor_numeral nat_numeral decimal_1e21
        length_1e21 find_1e21 option.case digit_candidates_1e21 list.sel closest.simps
        prod.case exponential_1e21)

lemma toFixed_1e21:
  "toFixed 2 (Finite (10 ^ 21)) = ''1e+21'' \<and> \<not> two_decimals ''1e+21''"
  by (simp add: toFixed_def Number_toString_large_1e21 two_decimals_def)

subsection \<open>The product of the test suite\<close>

text \<open>
  The repository's test of the product builder with all optional fields: the price
  \<^verbatim>\<open>29.99\<close> is the binary64 value \<open>8441434551552573 / 2 ^ 48\<close>, and the model
  returns the record the test expects.
\<close>

lemma floor_2999:
  "\<lfloor>\<bar>8441434551552573 / 281474976710656 :: rat\<bar> * 10 ^ 2 + 1 / 2\<rfloor> = 2999"
  by (rule floor_unique) simp_all

lemma decimal_2999: "decimal 2999 = ''2999''"
  by (simp add: decimal.simps digit_char_def)

lemma toFixed_2999: "toFixed 2 (Finite (8441434551552573 / 281474976710656)) = ''29.99''"
proof -
  have "fixed_notation 2 \<bar>8441434551552573 / 281474976710656\<bar> = ''29.99''"
    unfolding fixed_notation_def floor_2999 Let_def by (simp add: decimal_2999)
  then show ?thesis
    by (simp add: toFixed_small)
qed

lemma product_test:
  "createProductSchema
     \<lparr>prod_name = ''Premium Widget'',
      prod_description = ''High-quality widget for all your needs'',
      prod_image = Some (ImageUrls [''https://example.com/widget1.jpg'',
                                    ''https://example.com/widget2.jpg'']),
      prod_url = Some ''https://example.com/products/widget'',
      brand = Some ''WidgetCo'', sku = Some ''WGT-001'',
      price = Some (Finite (8441434551552573 / 281474976710656)),
      priceCurrency = Some ''USD'', availability = Some InStock\<rparr> =
   [(''@context'', JStr ''https://schema.org''),
    (''@type'', JStr ''Product''),
    (''name'', JStr ''Premium Widget''),
    (''description'', JStr ''High-quality widget for all your needs''),
    (''image'', JArr [JStr ''https://example.com/widget1.jpg'',
                      JStr ''https://example.com/widget2.jpg'']),
    (''url'', JStr ''https://example.com/products/widget''),
    (''brand'', JObj [(''@type'', JStr ''Brand''), (''name'', JStr ''WidgetCo'')]),
    (''sku'', JStr ''WGT-001''),
    (''offers'',
       JObj [(''@type'', JStr ''Offer''),
             (''price'', JStr ''29.99''),
             (''priceCurrency'', JStr ''USD''),
             (''availability'', JStr ''https://schema.org/InStock'')])]"
  by (simp add: createProductSchema_def assign_string_def toFixed_2999)

section \<open>The organization builder\<close>

lemma get_prop_add_organization_fields:
  "k \<notin> {''@id'', ''description'', ''telephone'', ''email'', ''priceRange'', ''image'',
          ''logo'', ''sameAs''} \<Longrightarrow>
     get_prop (add_organization_fields org schema) k = get_prop schema k"
  by (simp add: add_organization_fields_def Let_def get_prop_assign_other get_prop_set_prop
      split: option.split)

lemma has_prop_add_organization_fields:
  "k \<notin> {''@id'', ''description'', ''telephone'', ''email'', ''priceRange'', ''image'',
          ''logo'', ''sameAs''} \<Longrightarrow>
     has_prop (add_organization_fields org schema) k = has_prop schema k"
  by (simp add: add_organization_fields_def Let_def has_prop_assign_other has_prop_set_prop
      split: option.split)

lemma get_prop_add_area_served:
  "k \<noteq> ''areaServed'' \<Longrightarrow> get_prop (add_area_served a schema) k = get_prop schema k"
  by (simp add: add_area_served_def Let_def get_prop_set_prop split: option.split)

lemma has_prop_add_area_served:
  "k \<noteq> ''areaServed'' \<Longrightarrow> has_prop (add_area_served a schema) k = has_prop schema k"
  by (simp add: add_area_served_def Let_def has_prop_set_prop split: option.split)

lemma get_prop_add_opening_hours:
  "k \<noteq> ''openingHours'' \<Longrightarrow> k \<noteq> ''openingHoursSpecification'' \<Longrightarrow>
     get_prop (add_opening_hours h schema) k = get_prop schema k"
  by (simp add: add_opening_hours_def Let_def get_prop_set_prop split: option.split)

lemma has_prop_add_opening_hours:
  "k \<noteq> ''openingHours'' \<Longrightarrow> k \<noteq> ''openingHoursSpecification'' \<Longrightarrow>
     has_prop (add_opening_hours h schema) k = has_prop schema k"
  by (simp add: add_opening_hours_def Let_def has_prop_set_prop split: option.split)

text \<open>What the service-area part leaves under \<open>areaServed\<close>, when the schema had no such key.\<close>

lemma area_served_circle:
  assumes "geoMidpoint area = Some mid" "geoRadius area = Some radius" "radius \<noteq> []"
  shows "get_prop (add_area_served (Some area) schema) ''areaServed'' =
           Some (JObj [(''@type'', JStr ''GeoCircle''),
                       (''geoMidpoint'',
                          JObj [(''@type'', JStr ''GeoCoordinates''),
                                (''latitude'', JNum (latitude mid)),
                                (''longitude'', JNum (longitude mid))]),
                       (''geoRadius'', JStr radius)])"
  using assms by (simp add: add_area_served_def Let_def get_prop_set_prop)

lemma area_served_city:
  assumes "\<not> (geoMidpoint area \<noteq> None \<and> truthy (geoRadius area))"
    "city area = Some c" "c \<noteq> []"
  shows "get_prop (add_area_served (Some area) schema) ''areaServed'' =
           Some (JObj [(''@type'', JStr ''City''), (''name'', JStr c)])"
  using assms
  by (auto simp: add_area_served_def Let_def get_prop_set_prop truthy_def split: option.split)

lemma area_served_nothing:
  assumes "\<And>area. served = Some area \<Longrightarrow>
             \<not> (geoMidpoint area \<noteq> None \<and> truthy (geoRadius area)) \<and> \<not> truthy (city area)"
  shows "add_area_served served schema = schema"
proof (cases served)
  case None
  then show ?thesis by (simp add: add_area_served_def)
next
  case (Some area)
  with assms[of area] show ?thesis
    by (auto simp: add_area_served_def Let_def truthy_def split: option.split)
qed

lemma opening_hours_24:
  assumes "open24Hours hours = Some True"
  shows "add_opening_hours (Some hours) schema = set_prop ''openingHours'' (JStr ''Mo-Su'') schema"
  using assms by (simp add: add_opening_hours_def)

lemma opening_hours_specification:
  assumes "open24Hours hours \<noteq> Some True" "dayOfWeek hours = Some days"
    "opens hours = Some op" "closes hours = Some cl" "op \<noteq> []" "cl \<noteq> []"
  shows "add_opening_hours (Some hours) schema =
           set_prop ''openingHoursSpecification''
             (JObj [(''@type'', JStr ''OpeningHoursSpecification''),
                    (''dayOfWeek'', JArr (map (\<lambda>d. JStr (weekday_string d)) days)),
                    (''opens'', JStr op),
                    (''closes'', JStr cl)]) schema"
  using assms by (simp add: add_opening_hours_def)

lemma opening_hours_nothing:
  assumes "open24Hours hours \<noteq> Some True"
    "\<not> (dayOfWeek hours \<noteq> None \<and> truthy (opens hours) \<and> truthy (closes hours))"
  shows "add_opening_hours (Some hours) schema = schema"
  using assms by (auto simp: add_opening_hours_def truthy_def split: option.split)

lemma organization_before_hours:
  "\<not> has_prop (add_area_served a (add_organization_fields org
        [(''@context'', c), (''@type'', t), (''name'', n), (''url'', u)])) ''openingHours'' \<and>
   \<not> has_prop (add_area_served a (add_organization_fields org
        [(''@context'', c), (''@type'', t), (''name'', n), (''url'', u)])) ''openingHoursSpecification''"
  by (simp add: has_prop_add_area_served has_prop_add_organization_fields has_prop_Cons has_prop_Nil)

lemma organization_before_area:
  "\<not> has_prop (add_organization_fields org
        [(''@context'', c), (''@type'', t), (''name'', n), (''url'', u)]) ''areaServed''"
  by (simp add: has_prop_add_organization_fields has_prop_Cons has_prop_Nil)

text \<open>
  C3, as the code has it: with a center point and a non-empty radius the schema's
  \<open>areaServed\<close> is the GeoCircle record carrying the coordinates and the radius as given;
  otherwise, with a non-empty city, it is the City record of that name; otherwise
  (no service area, or only region and country, or only empty strings) the schema has
  no \<open>areaServed\<close> field. The builder is a total function: it returns a schema on every
  input.
\<close>

theorem organization_area_served:
  "(\<forall>area mid radius.
      areaServed options = Some area \<and> geoMidpoint area = Some mid \<and>
      geoRadius area = Some radius \<and> radius \<noteq> [] \<longrightarrow>
      get_prop (createOrganizationSchema options) ''areaServed'' =
        Some (JObj [(''@type'', JStr ''GeoCircle''),
                    (''geoMidpoint'',
                       JObj [(''@type'', JStr ''GeoCoordinates''),
                             (''latitude'', JNum (latitude mid)),
                             (''longitude'', JNum (longitude mid))]),
                    (''geoRadius'', JStr radius)])) \<and>
   (\<forall>area c.
      areaServed options = Some area \<and>
      \<not> (geoMidpoint area \<noteq> None \<and> truthy (geoRadius area)) \<and>
      city area = Some c \<and> c \<noteq> [] \<longrightarrow>
      get_prop (createOrganizationSchema options) ''areaServed'' =
        Some (JObj [(''@type'', JStr ''City''), (''name'', JStr c)])) \<and>
   ((\<forall>area.
      areaServed options = Some area \<longrightarrow>
      \<not> (geoMidpoint area \<noteq> None \<and> truthy (geoRadius area)) \<and> \<not> truthy (city area)) \<longrightarrow>
      \<not> has_prop (createOrganizationSchema options) ''areaServed'')"
proof (intro conjI allI impI)
  fix area mid radius
  assume "areaServed options = Some area \<and> geoMidpoint area = Some mid \<and>
          geoRadius area = Some radius \<and> radius \<noteq> []"
  then show "get_prop (createOrganizationSchema options) ''areaServed'' =
        Some (JObj [(''@type'', JStr ''GeoCircle''),
                    (''geoMidpoint'',
                       JObj [(''@type'', JStr ''GeoCoordinates''),
                             (''latitude'', JNum (latitude mid)),
                             (''longitude'', JNum (longitude mid))]),
                    (''geoRadius'', JStr radius)])"
    by (simp add: createOrganizationSchema_def Let_def get_prop_add_opening_hours
          area_served_circle)
next
  fix area c
  assume "areaServed options = Some area \<and>
      \<not> (geoMidpoint area \<noteq> None \<and> truthy (geoRadius area)) \<and>
      city area = Some c \<and> c \<noteq> []"
  then show "get_prop (createOrganizationSchema options) ''areaServed'' =
        Some (JObj [(''@type'', JStr ''City''), (''name'', JStr c)])"
    by (simp add: createOrganizationSchema_def Let_def get_prop_add_opening_hours
          area_served_city)
next
  assume "\<forall>area. areaServed options = Some area \<longrightarrow>
      \<not> (geoMidpoint area \<noteq> None \<and> truthy (geoRadius area)) \<and> \<not> truthy (city area)"
  then have "add_area_served (areaServed options) schema = schema" for schema
    by (intro area_served_nothing) blast
  then show "\<not> has_prop (createOrganizationSchema options) ''areaServed''"
    by (simp add: createOrganizationSchema_def Let_def has_prop_add_opening_hours
          organization_before_area)
qed

text \<open>
  The three cases of C3: a circle (with a city given as well), a city alone, and region
  and country alone.
\<close>

theorem organization_area_served_witness:
  "get_prop (createOrganizationSchema
       \<lparr>organization =
          \<lparr>org_name = ''My Business'', org_description = None,
           org_url = ''https://mybusiness.com'', org_logo = None, org_image = None,
           org_telephone = None, org_email = None, org_priceRange = None, org_sameAs = None,
           org_id = None\<rparr>,
        areaServed =
          Some \<lparr>geoMidpoint =
                  Some \<lparr>latitude = Finite (407128 / 10000), longitude = Finite (- 74006 / 1000)\<rparr>,
                geoRadius = Some ''25km'', city = Some ''New York'', region = None,
                country = None\<rparr>,
        openingHoursSpecification = None, org_type = None\<rparr>) ''areaServed'' =
     Some (JObj [(''@type'', JStr ''GeoCircle''),
                 (''geoMidpoint'',
                    JObj [(''@type'', JStr ''GeoCoordinates''),
                          (''latitude'', JNum (Finite (407128 / 10000))),
                          (''longitude'', JNum (Finite (- 74006 / 1000)))]),
                 (''geoRadius'', JStr ''25km'')]) \<and>
   get_prop (createOrganizationSchema
       \<lparr>organization =
          \<lparr>org_name = ''My Business'', org_description = None,
           org_url = ''https://mybusiness.com'', org_logo = None, org_image = None,
           org_telephone = None, org_email = None, org_priceRange = None, org_sameAs = None,
           org_id = None\<rparr>,
        areaServed =
          Some \<lparr>geoMidpoint = None, geoRadius = None, city = Some ''New York'', region = None,
                country = None\<rparr>,
        openingHoursSpecification = None, org_type = None\<rparr>) ''areaServed'' =
     Some (JObj [(''@type'', JStr ''City''), (''name'', JStr ''New York'')]) \<and>
   \<not> has_prop (createOrganizationSchema
       \<lparr>organization =
          \<lparr>org_name = ''Test'', org_description = None, org_url = ''https://test.com'',
           org_logo = None, org_image = None, org_telephone = None, org_email = None,
           org_priceRange = None, org_sameAs = None, org_id = None\<rparr>,
        areaServed =
          Some \<lparr>geoMidpoint = None, geoRadius = None, city = None,
                region = Some ''California'', country = Some ''USA''\<rparr>,
        openingHoursSpecification = None, org_type = None\<rparr>) ''areaServed''"
  using
    organization_area_served [of
       "\<lparr>organization =
          \<lparr>org_name = ''My Business'', org_description = None,
           org_url = ''https://mybusiness.com'', org_logo = None, org_image = None,
           org_telephone = None, org_email = None, org_priceRange = None, org_sameAs = None,
           org_id = None\<rparr>,
        areaServed =
          Some \<lparr>geoMidpoint =
                  Some \<lparr>latitude = Finite (407128 / 10000), longitude = Finite (- 74006 / 1000)\<rparr>,
                geoRadius = Some ''25km'', city = Some ''New York'', region = None,
                country = None\<rparr>,
        openingHoursSpecification = None, org_type = None\<rparr>"]
    organization_area_served [of
       "\<lparr>organization =
          \<lparr>org_name = ''My Business'', org_description = None,
           org_url = ''https://mybusiness.com'', org_logo = None, org_image = None,
           org_telephone = None, org_email = None, org_priceRange = None, org_sameAs = None,
           org_id = None\<rparr>,
        areaServed =
          Some \<lparr>geoMidpoint = None, geoRadius = None, city = Some ''New York'', region = None,
                country = None\<rparr>,
        openingHoursSpecification = None, org_type = None\<rparr>"]
    organization_area_served [of
       "\<lparr>organization =
          \<lparr>org_name = ''Test'', org_description = None, org_url = ''https://test.com'',
           org_logo = None, org_image = None, org_telephone = None, org_email = None,
           org_priceRange = None, org_sameAs = None, org_id = None\<rparr>,
        areaServed =
          Some \<lparr>geoMidpoint = None, geoRadius = None, city = None,
                region = Some ''California'', country = Some ''USA''\<rparr>,
        openingHoursSpecification = None, org_type = None\<rparr>"]
  by (simp add: truthy_def)

text \<open>
  C3 as stated fails: a service area that supplies a center point and the empty string
  as radius (and no city) gives a schema without \<open>areaServed\<close>, not a GeoCircle.
\<close>

theorem organization_area_served_counterexample:
  "\<not> has_prop (createOrganizationSchema
       \<lparr>organization =
          \<lparr>org_name = ''Test'', org_description = None, org_url = ''https://test.com'',
           org_logo = None, org_image = None, org_telephone = None, org_email = None,
           org_priceRange = None, org_sameAs = None, org_id = None\<rparr>,
        areaServed =
          Some \<lparr>geoMidpoint = Some \<lparr>latitude = Finite 40, longitude = Finite (- 74)\<rparr>,
                geoRadius = Some '''', city = None, region = None, country = None\<rparr>,
        openingHoursSpecification = None, org_type = None\<rparr>) ''areaServed''"
  by (simp add: createOrganizationSchema_def Let_def add_opening_hours_def add_area_served_def
        organization_before_area)

text \<open>
  C4, as the code has it, for an input with an opening-hours specification: a true
  \<open>open24Hours\<close> flag gives \<open>openingHours\<close> the string Mo-Su and no
  \<open>openingHoursSpecification\<close>; without it, a day list together with non-empty \<open>opens\<close>
  and \<open>closes\<close> strings gives the OpeningHoursSpecification record; any other
  combination gives neither field. The builder returns a schema in every case.
\<close>

theorem organization_opening_hours:
  "(\<forall>hours.
      openingHoursSpecification options = Some hours \<and> open24Hours hours = Some True \<longrightarrow>
      get_prop (createOrganizationSchema options) ''openingHours'' = Some (JStr ''Mo-Su'') \<and>
      \<not> has_prop (createOrganizationSchema options) ''openingHoursSpecification'') \<and>
   (\<forall>hours days op cl.
      openingHoursSpecification options = Some hours \<and> open24Hours hours \<noteq> Some True \<and>
      dayOfWeek hours = Some days \<and> opens hours = Some op \<and> closes hours = Some cl \<and>
      op \<noteq> [] \<and> cl \<noteq> [] \<longrightarrow>
      get_prop (createOrganizationSchema options) ''openingHoursSpecification'' =
        Some (JObj [(''@type'', JStr ''OpeningHoursSpecification''),
                    (''dayOfWeek'', JArr (map (\<lambda>d. JStr (weekday_string d)) days)),
                    (''opens'', JStr op),
                    (''closes'', JStr cl)]) \<and>
      \<not> has_prop (createOrganizationSchema options) ''openingHours'') \<and>
   (\<forall>hours.
      openingHoursSpecification options = Some hours \<and> open24Hours hours \<noteq> Some True \<and>
      \<not> (dayOfWeek hours \<noteq> None \<and> truthy (opens hours) \<and> truthy (closes hours)) \<longrightarrow>
      \<not> has_prop (createOrganizationSchema options) ''openingHours'' \<and>
      \<not> has_prop (createOrganizationSchema options) ''openingHoursSpecification'')"
  by (intro conjI allI impI)
     (simp_all add: createOrganizationSchema_def Let_def opening_hours_24
        opening_hours_specification opening_hours_nothing get_prop_set_prop has_prop_set_prop
        organization_before_hours)

text \<open>
  The three cases of C4: the flag set, a full schedule, and a schedule without closing
  time.
\<close>

theorem organization_opening_hours_witness:
  "get_prop (createOrganizationSchema
       \<lparr>organization =
          \<lparr>org_name = ''Test'', org_description = None, org_url = ''https://test.com'',
           org_logo = None, org_image = None, org_telephone = None, org_email = None,
           org_priceRange = None, org_sameAs = None, org_id = None\<rparr>,
        areaServed = None,
        openingHoursSpecification =
          Some \<lparr>dayOfWeek = Some [Monday], opens = Some ''09:00'', closes = Some ''17:00'',
                open24Hours = Some True\<rparr>,
        org_type = None\<rparr>) ''openingHours'' = Some (JStr ''Mo-Su'') \<and>
   get_prop (createOrganizationSchema
       \<lparr>organization =
          \<lparr>org_name = ''Test'', org_description = None, org_url = ''https://test.com'',
           org_logo = None, org_image = None, org_telephone = None, org_email = None,
           org_priceRange = None, org_sameAs = None, org_id = None\<rparr>,
        areaServed = None,
        openingHoursSpecification =
          Some \<lparr>dayOfWeek = Some [Monday, Friday], opens = Some ''09:00'',
                closes = Some ''17:00'', open24Hours = None\<rparr>,
        org_type = None\<rparr>) ''openingHoursSpecification'' =
     Some (JObj [(''@type'', JStr ''OpeningHoursSpecification''),
                 (''dayOfWeek'', JArr [JStr ''Monday'', JStr ''Friday'']),
                 (''opens'', JStr ''09:00''),
                 (''closes'', JStr ''17:00'')]) \<and>
   \<not> has_prop (createOrganizationSchema
       \<lparr>organization =
          \<lparr>org_name = ''Test'', org_description = None, org_url = ''https://test.com'',
           org_logo = None, org_image = None, org_telephone = None, org_email = None,
           org_priceRange = None, org_sameAs = None, org_id = None\<rparr>,
        areaServed = None,
        openingHoursSpecification =
          Some \<lparr>dayOfWeek = Some [Monday], opens = Some ''09:00'', closes = None,
                open24Hours = Some False\<rparr>,
        org_type = None\<rparr>) ''openingHoursSpecification''"
  using
    organization_opening_hours [of
       "\<lparr>organization =
          \<lparr>org_name = ''Test'', org_description = None, org_url = ''https://test.com'',
           org_logo = None, org_image = None, org_telephone = None, org_email = None,
           org_priceRange = None, org_sameAs = None, org_id = None\<rparr>,
        areaServed = None,
        openingHoursSpecification =
          Some \<lparr>dayOfWeek = Some [Monday], opens = Some ''09:00'', closes = Some ''17:00'',
                open24Hours = Some True\<rparr>,
        org_type = None\<rparr>"]
    organization_opening_hours [of
       "\<lparr>organization =
          \<lparr>org_name = ''Test'', org_description = None, org_url = ''https://test.com'',
           org_logo = None, org_image = None, org_telephone = None, org_email = None,
           org_priceRange = None, org_sameAs = None, org_id = None\<rparr>,
        areaServed = None,
        openingHoursSpecification =
          Some \<lparr>dayOfWeek = Some [Monday, Friday], opens = Some ''09:00'',
                closes = Some ''17:00'', open24Hours = None\<rparr>,
        org_type = None\<rparr>"]
    organization_opening_hours [of
       "\<lparr>organization =
          \<lparr>org_name = ''Test'', org_description = None, org_url = ''https://test.com'',
           org_logo = None, org_image = None, org_telephone = None, org_email = None,
           org_priceRange = None, org_sameAs = None, org_id = None\<rparr>,
        areaServed = None,
        openingHoursSpecification =
          Some \<lparr>dayOfWeek = Some [Monday], opens = Some ''09:00'', closes = None,
                open24Hours = Some False\<rparr>,
        org_type = None\<rparr>"]
  by (simp add: truthy_def)

text \<open>
  C4 as stated fails: with a day list, a closing time and the empty string as opening
  time all three are present, and no OpeningHoursSpecification is emitted.
\<close>

theorem organization_opening_hours_counterexample:
  "\<not> has_prop (createOrganizationSchema
       \<lparr>organization =
          \<lparr>org_name = ''Test'', org_description = None, org_url = ''https://test.com'',
           org_logo = None, org_image = None, org_telephone = None, org_email = None,
           org_priceRange = None, org_sameAs = None, org_id = None\<rparr>,
        areaServed = None,
        openingHoursSpecification =
          Some \<lparr>dayOfWeek = Some [Monday, Tuesday], opens = Some '''',
                closes = Some ''17:00'', open24Hours = None\<rparr>,
        org_type = None\<rparr>) ''openingHoursSpecification''"
  by (simp add: createOrganizationSchema_def Let_def add_opening_hours_def
        organization_before_hours)

section \<open>The breadcrumb builder\<close>

lemma all_less_two: "(\<forall>i<(2::nat). P i) \<longleftrightarrow> P 0 \<and> P 1"
  by (auto simp: less_2_cases_iff)

text \<open>
  C7: for \<open>N\<close> breadcrumb items the builder returns a BreadcrumbList whose
  \<open>itemListElement\<close> has \<open>N\<close> entries; entry \<open>i\<close> is a ListItem at position \<open>i + 1\<close>
  with the name and the url of item \<open>i\<close>. No items give the empty list.
\<close>

theorem breadcrumb_positions:
  "get_prop (createBreadcrumbSchema items) ''@type'' = Some (JStr ''BreadcrumbList'') \<and>
   (\<exists>elements.
      get_prop (createBreadcrumbSchema items) ''itemListElement'' = Some (JArr elements) \<and>
      length elements = length items \<and>
      (\<forall>i < length items.
         field (elements ! i) ''@type'' = Some (JStr ''ListItem'') \<and>
         field (elements ! i) ''position'' = Some (JNum (Finite (of_nat (i + 1)))) \<and>
         field (elements ! i) ''name'' = Some (JStr (bc_name (items ! i))) \<and>
         field (elements ! i) ''item'' = Some (JStr (bc_url (items ! i))))) \<and>
   get_prop (createBreadcrumbSchema []) ''itemListElement'' = Some (JArr [])"
proof -
  define elements where
    "elements = map (\<lambda>(index, item).
                   JObj [(''@type'', JStr ''ListItem''),
                         (''position'', JNum (Finite (of_nat (index + 1)))),
                         (''name'', JStr (bc_name item)),
                         (''item'', JStr (bc_url item))]) (enumerate 0 items)"
  have list: "get_prop (createBreadcrumbSchema items) ''itemListElement'' = Some (JArr elements)"
    by (simp add: createBreadcrumbSchema_def elements_def get_prop_Cons)
  have len: "length elements = length items"
    by (simp add: elements_def)
  have entry: "elements ! i =
                 JObj [(''@type'', JStr ''ListItem''),
                       (''position'', JNum (Finite (of_nat (i + 1)))),
                       (''name'', JStr (bc_name (items ! i))),
                       (''item'', JStr (bc_url (items ! i)))]"
    if "i < length items" for i
    using that by (simp add: elements_def nth_enumerate_eq del: of_nat_Suc of_nat_add)
  have "\<forall>i < length items.
         field (elements ! i) ''@type'' = Some (JStr ''ListItem'') \<and>
         field (elements ! i) ''position'' = Some (JNum (Finite (of_nat (i + 1)))) \<and>
         field (elements ! i) ''name'' = Some (JStr (bc_name (items ! i))) \<and>
         field (elements ! i) ''item'' = Some (JStr (bc_url (items ! i)))"
    by (simp add: entry del: of_nat_Suc of_nat_add)
  with list len have
    "\<exists>elements.
      get_prop (createBreadcrumbSchema items) ''itemListElement'' = Some (JArr elements) \<and>
      length elements = length items \<and>
      (\<forall>i < length items.
         field (elements ! i) ''@type'' = Some (JStr ''ListItem'') \<and>
         field (elements ! i) ''position'' = Some (JNum (Finite (of_nat (i + 1)))) \<and>
         field (elements ! i) ''name'' = Some (JStr (bc_name (items ! i))) \<and>
         field (elements ! i) ''item'' = Some (JStr (bc_url (items ! i))))"
    by blast
  moreover
  have "get_prop (createBreadcrumbSchema items) ''@type'' = Some (JStr ''BreadcrumbList'')"
    by (simp add: createBreadcrumbSchema_def get_prop_Cons)
  moreover
  have "get_prop (createBreadcrumbSchema []) ''itemListElement'' = Some (JArr [])"
    by (simp add: createBreadcrumbSchema_def get_prop_Cons)
  ultimately show ?thesis
    by blast
qed

text \<open>C7 at the two breadcrumbs of the test suite.\<close>

theorem breadcrumb_positions_witness:
  "\<exists>elements.
      get_prop (createBreadcrumbSchema
        [\<lparr>bc_name = ''Home'', bc_url = ''https://example.com''\<rparr>,
         \<lparr>bc_name = ''Products'', bc_url = ''https://example.com/products''\<rparr>])
        ''itemListElement'' = Some (JArr elements) \<and>
      length elements = 2 \<and>
      field (elements ! 0) ''position'' = Some (JNum (Finite 1)) \<and>
      field (elements ! 0) ''name'' = Some (JStr ''Home'') \<and>
      field (elements ! 0) ''item'' = Some (JStr ''https://example.com'') \<and>
      field (elements ! 1) ''position'' = Some (JNum (Finite 2))"
  using breadcrumb_positions [of
        "[\<lparr>bc_name = ''Home'', bc_url = ''https://example.com''\<rparr>,
          \<lparr>bc_name = ''Products'', bc_url = ''https://example.com/products''\<rparr>]"]
  by (auto simp: all_less_two)

section \<open>The review builder\<close>

text \<open>
  C8: when the input gives neither \<open>bestRating\<close> nor \<open>worstRating\<close>, the aggregate
  rating has \<open>bestRating\<close> 5 and \<open>worstRating\<close> 1. For every input the record has an
  \<open>aggregateRating\<close> (whatever the review count, 0 included), and the \<open>review\<close> list
  has one entry per review, each with a Rating record whose \<open>bestRating\<close> and
  \<open>worstRating\<close> are those of the aggregate.
\<close>

theorem review_rating_bounds:
  "\<exists>aggregate entries best worst.
     get_prop (createReviewSchema options) ''aggregateRating'' = Some aggregate \<and>
     field aggregate ''@type'' = Some (JStr ''AggregateRating'') \<and>
     field aggregate ''reviewCount'' = Some (JNum (reviewCount options)) \<and>
     field aggregate ''bestRating'' = Some (JNum best) \<and>
     field aggregate ''worstRating'' = Some (JNum worst) \<and>
     (bestRating options = None \<and> worstRating options = None \<longrightarrow>
        best = Finite 5 \<and> worst = Finite 1) \<and>
     get_prop (createReviewSchema options) ''review'' = Some (JArr entries) \<and>
     length entries = length (reviews options) \<and>
     (\<forall>entry \<in> set entries.
        \<exists>rating.
          field entry ''reviewRating'' = Some rating \<and>
          field rating ''@type'' = Some (JStr ''Rating'') \<and>
          field rating ''bestRating'' = Some (JNum best) \<and>
          field rating ''worstRating'' = Some (JNum worst))"
proof -
  define best where "best = (case bestRating options of None \<Rightarrow> Finite 5 | Some b \<Rightarrow> b)"
  define worst where "worst = (case worstRating options of None \<Rightarrow> Finite 1 | Some w \<Rightarrow> w)"
  define aggregate where
    "aggregate = JObj [(''@type'', JStr ''AggregateRating''),
                       (''ratingValue'', JNum (ratingValue options)),
                       (''reviewCount'', JNum (reviewCount options)),
                       (''bestRating'', JNum best),
                       (''worstRating'', JNum worst)]"
  define entry where
    "entry = (\<lambda>review :: ReviewItem.
                JObj [(''@type'', JStr ''Review''),
                      (''author'',
                         JObj [(''@type'', JStr ''Person''), (''name'', JStr (rv_author review))]),
                      (''reviewBody'', JStr (rv_reviewBody review)),
                      (''reviewRating'',
                         JObj [(''@type'', JStr ''Rating''),
                               (''ratingValue'', JNum (rv_reviewRating review)),
                               (''bestRating'', JNum best),
                               (''worstRating'', JNum worst)]),
                      (''datePublished'', JStr (rv_datePublished review))])"
  have schema: "createReviewSchema options =
      [(''@context'', JStr ''https://schema.org''), (''@type'', JStr ''LocalBusiness''),
       (''name'', JStr (org_name (rev_organization options))),
       (''aggregateRating'', aggregate), (''review'', JArr (map entry (reviews options)))]"
    by (simp add: createReviewSchema_def Let_def aggregate_def entry_def best_def worst_def)
  have "get_prop (createReviewSchema options) ''aggregateRating'' = Some aggregate"
    and "get_prop (createReviewSchema options) ''review'' = Some (JArr (map entry (reviews options)))"
    by (simp_all add: schema get_prop_Cons)
  moreover
  have "field aggregate ''@type'' = Some (JStr ''AggregateRating'')"
    and "field aggregate ''reviewCount'' = Some (JNum (reviewCount options))"
    and "field aggregate ''bestRating'' = Some (JNum best)"
    and "field aggregate ''worstRating'' = Some (JNum worst)"
    by (simp_all add: aggregate_def)
  moreover
  have "bestRating options = None \<and> worstRating options = None \<longrightarrow>
          best = Finite 5 \<and> worst = Finite 1"
    by (simp add: best_def worst_def)
  moreover
  have "\<forall>e \<in> set (map entry (reviews options)).
          \<exists>rating.
            field e ''reviewRating'' = Some rating \<and>
            field rating ''@type'' = Some (JStr ''Rating'') \<and>
            field rating ''bestRating'' = Some (JNum best) \<and>
            field rating ''worstRating'' = Some (JNum worst)"
    by (auto simp: entry_def)
  moreover
  have "length (map entry (reviews options)) = length (reviews options)"
    by simp
  ultimately show ?thesis
    by blast
qed

text \<open>C8 at an input with a review count of 0, no bounds given, and one review.\<close>

theorem review_rating_bounds_witness:
  "\<exists>aggregate entries.
     get_prop (createReviewSchema
       \<lparr>rev_organization =
          \<lparr>org_name = ''Test'', org_description = None, org_url = ''https://test.com'',
           org_logo = None, org_image = None, org_telephone = None, org_email = None,
           org_priceRange = None, org_sameAs = None, org_id = None\<rparr>,
        reviewCount = Finite 0, ratingValue = Finite 0, bestRating = None,
        worstRating = None,
        reviews = [\<lparr>rv_author = ''John Doe'', rv_reviewBody = ''Excellent service!'',
                    rv_reviewRating = Finite 5, rv_datePublished = ''2024-01-15''\<rparr>]\<rparr>)
       ''aggregateRating'' = Some aggregate \<and>
     field aggregate ''reviewCount'' = Some (JNum (Finite 0)) \<and>
     field aggregate ''bestRating'' = Some (JNum (Finite 5)) \<and>
     field aggregate ''worstRating'' = Some (JNum (Finite 1)) \<and>
     get_prop (createReviewSchema
       \<lparr>rev_organization =
          \<lparr>org_name = ''Test'', org_description = None, org_url = ''https://test.com'',
           org_logo = None, org_image = None, org_telephone = None, org_email = None,
           org_priceRange = None, org_sameAs = None, org_id = None\<rparr>,
        reviewCount = Finite 0, ratingValue = Finite 0, bestRating = None,
        worstRating = None,
        reviews = [\<lparr>rv_author = ''John Doe'', rv_reviewBody = ''Excellent service!'',
                    rv_reviewRating = Finite 5, rv_datePublished = ''2024-01-15''\<rparr>]\<rparr>)
       ''review'' = Some (JArr entries) \<and>
     length entries = 1 \<and>
     (\<exists>rating.
        field (entries ! 0) ''reviewRating'' = Some rating \<and>
        field rating ''bestRating'' = Some (JNum (Finite 5)) \<and>
        field rating ''worstRating'' = Some (JNum (Finite 1)))"
proof -
  obtain aggregate entries best worst where *:
    "get_prop (createReviewSchema
       \<lparr>rev_organization =
          \<lparr>org_name = ''Test'', org_description = None, org_url = ''https://test.com'',
           org_logo = None, org_image = None, org_telephone = None, org_email = None,
           org_priceRange = None, org_sameAs = None, org_id = None\<rparr>,
        reviewCount = Finite 0, ratingValue = Finite 0, bestRating = None,
        worstRating = None,
        reviews = [\<lparr>rv_author = ''John Doe'', rv_reviewBody = ''Excellent service!'',
                    rv_reviewRating = Finite 5, rv_datePublished = ''2024-01-15''\<rparr>]\<rparr>)
       ''aggregateRating'' = Some aggregate"
    "field aggregate ''reviewCount'' = Some (JNum (Finite 0))"
    "field aggregate ''bestRating'' = Some (JNum best)"
    "field aggregate ''worstRating'' = Some (JNum worst)"
    "best = Finite 5 \<and> worst = Finite 1"
    "get_prop (createReviewSchema
       \<lparr>rev_organization =
          \<lparr>org_name = ''Test'', org_description = None, org_url = ''https://test.com'',
           org_logo = None, org_image = None, org_telephone = None, org_email = None,
           org_priceRange = None, org_sameAs = None, org_id = None\<rparr>,
        reviewCount = Finite 0, ratingValue = Finite 0, bestRating = None,
        worstRating = None,
        reviews = [\<lparr>rv_author = ''John Doe'', rv_reviewBody = ''Excellent service!'',
                    rv_reviewRating = Finite 5, rv_datePublished = ''2024-01-15''\<rparr>]\<rparr>)
       ''review'' = Some (JArr entries)"
    "length entries = 1"
    "\<forall>entry \<in> set entries.
        \<exists>rating.
          field entry ''reviewRating'' = Some rating \<and>
          field rating ''@type'' = Some (JStr ''Rating'') \<and>
          field rating ''bestRating'' = Some (JNum best) \<and>
          field rating ''worstRating'' = Some (JNum worst)"
    using review_rating_bounds [of
       "\<lparr>rev_organization =
          \<lparr>org_name = ''Test'', org_description = None, org_url = ''https://test.com'',
           org_logo = None, org_image = None, org_telephone = None, org_email = None,
           org_priceRange = None, org_sameAs = None, org_id = None\<rparr>,
        reviewCount = Finite 0, ratingValue = Finite 0, bestRating = None,
        worstRating = None,
        reviews = [\<lparr>rv_author = ''John Doe'', rv_reviewBody = ''Excellent service!'',
                    rv_reviewRating = Finite 5, rv_datePublished = ''2024-01-15''\<rparr>]\<rparr>"]
    by auto
  from *(7) have "entries ! 0 \<in> set entries"
    by simp
  with *(8) obtain rating where
    "field (entries ! 0) ''reviewRating'' = Some rating"
    "field rating ''bestRating'' = Some (JNum best)"
    "field rating ''worstRating'' = Some (JNum worst)"
    by blast
  with * show ?thesis
    by auto
qed

text \<open>
  C10: the record of the review builder has the five fields \<open>@context\<close>, \<open>@type\<close>,
  \<open>name\<close>, \<open>aggregateRating\<close> and \<open>review\<close> and no other: the url of the
  organization and its optional fields are not copied, whatever the input gives.
\<close>

theorem review_fields:
  "map fst (createReviewSchema options) =
     [''@context'', ''@type'', ''name'', ''aggregateRating'', ''review'']"
  by (simp add: createReviewSchema_def Let_def)

section \<open>Context and type of every builder\<close>

lemma service_context_type:
  "get_prop (createServiceSchema options) ''@context'' = Some (JStr ''https://schema.org'') \<and>
   get_prop (createServiceSchema options) ''@type'' = Some (JStr ''Service'')"
  by (simp add: createServiceSchema_def Let_def get_prop_assign_other get_prop_set_prop
        get_prop_Cons split: option.split)

lemma product_context_type:
  "get_prop (createProductSchema options) ''@context'' = Some (JStr ''https://schema.org'') \<and>
   get_prop (createProductSchema options) ''@type'' = Some (JStr ''Product'')"
  by (simp add: createProductSchema_def Let_def get_prop_assign_other get_prop_set_prop
        get_prop_Cons split: option.split ProductImage.split)

lemma article_context_type:
  "get_prop (createArticleSchema options) ''@context'' = Some (JStr ''https://schema.org'') \<and>
   get_prop (createArticleSchema options) ''@type'' = Some (JStr ''Article'')"
  by (simp add: createArticleSchema_def Let_def get_prop_assign_other get_prop_set_prop
        get_prop_Cons split: option.split)

lemma event_context_type:
  "get_prop (createEventSchema options) ''@context'' = Some (JStr ''https://schema.org'') \<and>
   get_prop (createEventSchema options) ''@type'' = Some (JStr ''Event'')"
  by (simp add: createEventSchema_def Let_def get_prop_assign_other get_prop_set_prop
        get_prop_Cons split: option.split)

lemma organization_context_type:
  "get_prop (createOrganizationSchema options) ''@context'' = Some (JStr ''https://schema.org'') \<and>
   get_prop (createOrganizationSchema options) ''@type'' =
     Some (JStr (case org_type options of None \<Rightarrow> ''LocalBusiness'' | Some t \<Rightarrow> t))"
  by (simp add: createOrganizationSchema_def Let_def get_prop_add_opening_hours
        get_prop_add_area_served get_prop_add_organization_fields get_prop_Cons)

text \<open>
  C9: every builder returns a record whose \<open>@context\<close> is the string
  https://schema.org and whose \<open>@type\<close> is a string: the tag of the builder, and for
  the organization builder the type given by the caller, LocalBusiness when none is
  given.
\<close>

theorem builders_context_and_type:
  "get_prop (createOrganizationSchema organization_options) ''@context'' =
     Some (JStr ''https://schema.org'') \<and>
   get_prop (createOrganizationSchema organization_options) ''@type'' =
     Some (JStr (case org_type organization_options of
                   None \<Rightarrow> ''LocalBusiness'' | Some t \<Rightarrow> t)) \<and>
   get_prop (createServiceSchema service_options) ''@context'' =
     Some (JStr ''https://schema.org'') \<and>
   get_prop (createServiceSchema service_options) ''@type'' = Some (JStr ''Service'') \<and>
   get_prop (createFAQSchema faqs) ''@context'' = Some (JStr ''https://schema.org'') \<and>
   get_prop (createFAQSchema faqs) ''@type'' = Some (JStr ''FAQPage'') \<and>
   get_prop (createBreadcrumbSchema items) ''@context'' = Some (JStr ''https://schema.org'') \<and>
   get_prop (createBreadcrumbSchema items) ''@type'' = Some (JStr ''BreadcrumbList'') \<and>
   get_prop (createReviewSchema review_options) ''@context'' =
     Some (JStr ''https://schema.org'') \<and>
   get_prop (createReviewSchema review_options) ''@type'' = Some (JStr ''LocalBusiness'') \<and>
   get_prop (createProductSchema product_options) ''@context'' =
     Some (JStr ''https://schema.org'') \<and>
   get_prop (createProductSchema product_options) ''@type'' = Some (JStr ''Product'') \<and>
   get_prop (createArticleSchema article_options) ''@context'' =
     Some (JStr ''https://schema.org'') \<and>
   get_prop (createArticleSchema article_options) ''@type'' = Some (JStr ''Article'') \<and>
   get_prop (createEventSchema event_options) ''@context'' =
     Some (JStr ''https://schema.org'') \<and>
   get_prop (createEventSchema event_options) ''@type'' = Some (JStr ''Event'')"
proof -
  have "get_prop (createFAQSchema faqs) ''@context'' = Some (JStr ''https://schema.org'') \<and>
        get_prop (createFAQSchema faqs) ''@type'' = Some (JStr ''FAQPage'')"
    by (simp add: createFAQSchema_def get_prop_Cons)
  moreover
  have "get_prop (createBreadcrumbSchema items) ''@context'' = Some (JStr ''https://schema.org'') \<and>
        get_prop (createBreadcrumbSchema items) ''@type'' = Some (JStr ''BreadcrumbList'')"
    by (simp add: createBreadcrumbSchema_def get_prop_Cons)
  moreover
  have "get_prop (createReviewSchema review_options) ''@context'' =
          Some (JStr ''https://schema.org'') \<and>
        get_prop (createReviewSchema review_options) ''@type'' = Some (JStr ''LocalBusiness'')"
    by (simp add: createReviewSchema_def Let_def get_prop_Cons)
  ultimately show ?thesis
    using organization_context_type [of organization_options]
      service_context_type [of service_options] product_context_type [of product_options]
      article_context_type [of article_options] event_context_type [of event_options]
    by blast
qed

section \<open>The merger\<close>

text \<open>The merger returns its argument.\<close>

lemma mergeSchemas_identity: "mergeSchemas schemas = schemas"
  by (simp add: mergeSchemas_def)

section \<open>Strings through JSON\<close>

text \<open>
  The text that QuoteJSONString gives for a string is read back as that string: every
  character is copied or escaped, and the parser undoes each escape.
\<close>

lemma hex_value_hex_digit: "d < 16 \<Longrightarrow> hex_value (hex_digit d) = Some d"
proof -
  assume "d < 16"
  then have "d \<in> set [0 ..< 16]" by simp
  then show ?thesis
    by (auto simp: upt_rec hex_value_def hex_digit_def)
qed

lemma hex_digit_not_special:
  "d < 16 \<Longrightarrow> hex_digit d \<noteq> CHR 0x22 \<and> hex_digit d \<noteq> CHR 0x5C"
proof -
  assume "d < 16"
  then have "d \<in> set [0 ..< 16]" by simp
  then show ?thesis
    by (auto simp: upt_rec hex_digit_def)
qed

lemma parse_chars_unicode:
  "parse_chars (CHR 0x5C # CHR ''u'' # a # b # c # d # r) =
     (case (hex_value a, hex_value b, hex_value c, hex_value d) of
        (Some h3, Some h2, Some h1, Some h0) \<Rightarrow>
          (case parse_chars r of
             None \<Rightarrow> None
           | Some (items, rest) \<Rightarrow>
               Some (Unit (h3 * 4096 + h2 * 256 + h1 * 16 + h0) # items, rest))
      | _ \<Rightarrow> None)"
  by simp

lemma parse_chars_escape:
  assumes "n < 32"
  shows "parse_chars (UnicodeEscape n @ r) =
           (case parse_chars r of
              None \<Rightarrow> None
            | Some (items, rest) \<Rightarrow> Some (Unit n # items, rest))"
proof -
  have d: "n div 4096 mod 16 = 0" "n div 256 mod 16 = 0" "n div 16 mod 16 < 16" "n mod 16 < 16"
    using assms by auto
  from assms have "n div 16 < 16"
    by (simp add: less_mult_imp_div_less)
  then have v: "n div 16 mod 16 * 16 + n mod 16 = n"
    by simp
  have h0: "hex_value (hex_digit 0) = Some 0"
    by (rule hex_value_hex_digit) simp
  have "parse_chars (UnicodeEscape n @ r) =
          parse_chars (CHR 0x5C # CHR ''u'' # hex_digit 0 # hex_digit 0 #
            hex_digit (n div 16 mod 16) # hex_digit (n mod 16) # r)"
    by (simp add: UnicodeEscape_def d)
  also have "\<dots> = (case parse_chars r of
              None \<Rightarrow> None
            | Some (items, rest) \<Rightarrow> Some (Unit n # items, rest))"
    unfolding parse_chars_unicode
    by (simp add: h0 hex_value_hex_digit [OF d(3)] hex_value_hex_digit [OF d(4)] v
          split: option.split)
  finally show ?thesis .
qed

lemma control_not_special:
  assumes "(of_char c :: nat) < 32"
  shows "c \<noteq> CHR 0x22" "c \<noteq> CHR 0x5C"
proof -
  show "c \<noteq> CHR 0x22"
  proof
    assume "c = CHR 0x22"
    then have "(of_char c :: nat) = 34" by simp
    with assms show False by simp
  qed
  show "c \<noteq> CHR 0x5C"
  proof
    assume "c = CHR 0x5C"
    then have "(of_char c :: nat) = 92" by simp
    with assms show False by simp
  qed
qed

lemma parse_chars_quote_char:
  "parse_chars (quote_char c @ r) =
     (case parse_chars r of
        None \<Rightarrow> None
      | Some (items, rest) \<Rightarrow> Some (item_of c # items, rest))"
proof -
  consider "c = CHR 0x08" | "c = CHR 0x09" | "c = CHR 0x0A" | "c = CHR 0x0C" | "c = CHR 0x0D"
    | "c = CHR 0x22" | "c = CHR 0x5C"
    | "(of_char c :: nat) < 32" "c \<noteq> CHR 0x08" "c \<noteq> CHR 0x09" "c \<noteq> CHR 0x0A"
      "c \<noteq> CHR 0x0C" "c \<noteq> CHR 0x0D"
    | "\<not> (of_char c :: nat) < 32" "c \<noteq> CHR 0x22" "c \<noteq> CHR 0x5C"
    by blast
  then show ?thesis
  proof cases
    case 1
    then show ?thesis
      by (simp add: quote_char_def item_of_def simple_escape_def split: option.split)
  next
    case 2
    then show ?thesis
      by (simp add: quote_char_def item_of_def simple_escape_def split: option.split)
  next
    case 3
    then show ?thesis
      by (simp add: quote_char_def item_of_def simple_escape_def split: option.split)
  next
    case 4
    then show ?thesis
      by (simp add: quote_char_def item_of_def simple_escape_def split: option.split)
  next
    case 5
    then show ?thesis
      by (simp add: quote_char_def item_of_def simple_escape_def split: option.split)
  next
    case 6
    then show ?thesis
      by (simp add: quote_char_def item_of_def simple_escape_def split: option.split)
  next
    case 7
    then show ?thesis
      by (simp add: quote_char_def item_of_def simple_escape_def split: option.split)
  next
    case 8
    then have "quote_char c = UnicodeEscape (of_char c)"
      using control_not_special [of c] by (simp add: quote_char_def)
    moreover from 8 have "item_of c = Unit (of_char c)"
      by (simp add: item_of_def)
    ultimately show ?thesis
      using 8(1) by (simp add: parse_chars_escape split: option.split)
  next
    case 9
    then have "quote_char c = [c]"
      by (auto simp: quote_char_def)
    moreover from 9 have "item_of c = Char c"
      by (auto simp: item_of_def)
    ultimately show ?thesis
      using 9 by (simp split: option.split)
  qed
qed

lemma parse_chars_quoted:
  "parse_chars (concat (map quote_char s) @ CHR 0x22 # rest) = Some (map item_of s, rest)"
  by (induction s) (simp_all add: parse_chars_quote_char)

lemma utf8_ascii: "(of_char c :: nat) < 0x80 \<Longrightarrow> utf8 (of_char c) = [c]"
  by (simp add: utf8_def)

lemma string_of_items_Unit:
  "u < 0xD800 \<Longrightarrow> string_of_items (Unit u # items) = utf8 u @ string_of_items items"
  by (cases items rule: string_of_items.cases) simp_all

lemma string_of_items_item_of: "string_of_items (map item_of s) = s"
proof (induction s)
  case Nil
  show ?case by simp
next
  case (Cons c s)
  show ?case
  proof (cases "item_of c")
    case (Char x)
    then have "x = c"
      by (auto simp: item_of_def split: if_splits)
    with Char Cons.IH show ?thesis by simp
  next
    case (Unit u)
    then have u: "u = of_char c" "u < 0x20"
      by (auto simp: item_of_def split: if_splits)
    then have "string_of_items (Unit u # map item_of s) = utf8 u @ s"
      using Cons.IH by (simp add: string_of_items_Unit)
    with Unit u show ?thesis
      by (simp add: utf8_ascii)
  qed
qed

lemma parse_string_quoted: "parse_string (QuoteJSONString s @ rest) = Some (s, rest)"
  by (simp add: parse_string_def QuoteJSONString_def parse_chars_quoted string_of_items_item_of)

section \<open>Numbers through JSON\<close>

text \<open>
  The text that Number::toString gives for a binary64 value is read back as that value;
  the negative zero, printed without its sign, is read back as the positive zero.
\<close>

subsection \<open>Rounding and the digits of Number::toString\<close>

text \<open>
  Rounding leaves a binary64 value as it is, and the digits that Number::toString
  chooses denote a number that rounds to the value: the candidates of the search are
  tested for it, and the exact decimal expansion is the value itself.
\<close>

lemma binary64_quotient:
  assumes "is_binary64 a" "0 < a"
  shows "of_int \<lfloor>a / 2 powi exponent64 a\<rfloor> = a / 2 powi exponent64 a" and "a < 2 ^ 1024"
proof -
  from assms(2) have "\<bar>a\<bar> = a" by simp
  with assms(1) show "of_int \<lfloor>a / 2 powi exponent64 a\<rfloor> = a / 2 powi exponent64 a"
    and "a < 2 ^ 1024"
    unfolding is_binary64_def by (simp_all only:)
qed

lemma round64_binary64:
  assumes "is_binary64 a" "0 < a"
  shows "round64 a = Finite a"
proof -
  define q where "q = a / 2 powi exponent64 a"
  have p: "(2::rat) powi exponent64 a \<noteq> 0" by simp
  have int: "of_int \<lfloor>q\<rfloor> = q"
    unfolding q_def by (rule binary64_quotient [OF assms])
  have r: "q - of_int \<lfloor>q\<rfloor> = 0"
    unfolding int by simp
  have "round_half_even q = \<lfloor>q\<rfloor>"
    unfolding round_half_even_def Let_def r by simp
  then have "of_int (round_half_even q) * 2 powi exponent64 a = q * 2 powi exponent64 a"
    by (simp only: int)
  also have "\<dots> = a"
    using p by (simp add: q_def)
  finally have v: "of_int (round_half_even (a / 2 powi exponent64 a)) * 2 powi exponent64 a = a"
    unfolding q_def .
  have "\<not> 2 ^ 1024 \<le> a"
    using binary64_quotient(2) [OF assms] by (simp only: not_le)
  then show ?thesis
    unfolding round64_def Let_def v using assms(2) by (simp only: if_False) simp
qed

lemma binary64_decimal_integer:
  assumes "is_binary64 a" "0 < a"
  shows "\<exists>Z. a * 10 ^ nat (- exponent64 a) = of_int Z"
proof -
  define E where "E = exponent64 a"
  define q where "q = a / 2 powi E"
  have p: "(2::rat) powi E \<noteq> 0" by simp
  have int: "of_int \<lfloor>q\<rfloor> = q"
    unfolding q_def E_def by (rule binary64_quotient [OF assms])
  have a: "a = of_int \<lfloor>q\<rfloor> * 2 powi E"
    unfolding int using p by (simp add: q_def)
  show ?thesis
  proof (cases "0 \<le> E")
    case True
    then have "(2::rat) powi E = 2 ^ nat E"
      by (simp add: power_int_def)
    with a True have "a * 10 ^ nat (- E) = of_int (\<lfloor>q\<rfloor> * 2 ^ nat E)"
      by simp
    then show ?thesis
      unfolding E_def by blast
  next
    case False
    then have "(2::rat) powi E = 1 / 2 ^ nat (- E)"
      by (simp add: power_int_def field_simps)
    moreover have "(10::rat) ^ nat (- E) = 2 ^ nat (- E) * 5 ^ nat (- E)"
      by (simp add: power_mult_distrib [symmetric])
    ultimately have "a * 10 ^ nat (- E) = of_int (\<lfloor>q\<rfloor> * 5 ^ nat (- E))"
      using a by simp
    then show ?thesis
      unfolding E_def by blast
  qed
qed

lemma exact_digits_value:
  assumes "is_binary64 a" "0 < a" "exact_digits a = (s, n)"
  shows "0 < s \<and> of_nat s * 10 powi (n - int (length (decimal s))) = a"
proof -
  define j where "j = nat (- exponent64 a)"
  from binary64_decimal_integer [OF assms(1,2)] obtain Z where Z: "a * 10 ^ j = of_int Z"
    unfolding j_def by blast
  from assms(2) have "0 < a * 10 ^ j" by simp
  with Z have "0 < Z" by simp
  from assms(3) have s: "s = nat \<lfloor>a * 10 ^ j\<rfloor>" and n: "n = int (length (decimal s)) - int j"
    by (auto simp: exact_digits_def Let_def j_def)
  from s Z \<open>0 < Z\<close> have "s = nat Z" by simp
  with \<open>0 < Z\<close> have "0 < s" and v: "(of_nat s :: rat) = a * 10 ^ j"
    using Z by simp_all
  have "(10::rat) powi (- int j) = 1 / 10 ^ j"
    by (simp add: power_int_def field_simps)
  with v n have "of_nat s * 10 powi (n - int (length (decimal s))) = a"
    by simp
  with \<open>0 < s\<close> show ?thesis by simp
qed

lemma closest64_mem: "closest64 a best cs \<in> set (best # cs)"
  by (induction cs arbitrary: best) auto

lemma candidates_mem:
  "(s, n) \<in> set (concat (map (\<lambda>n. map (\<lambda>s. (s, n)) (filter (P n) (cand n))) ns)) \<Longrightarrow> P n s"
  by auto

lemma digits64_mem:
  assumes "(s, n) \<in> set (digits64 a k)"
  shows "0 < s \<and> round64 (of_nat s * 10 powi (n - int (length (decimal s)))) = round64 a"
proof -
  have "0 < s \<and> length (decimal s) = k \<and> round64 (of_nat s * 10 powi (n - int k)) = round64 a"
    using assms unfolding digits64_def Let_def
    by (rule candidates_mem
          [where P = "\<lambda>n s. 0 < s \<and> length (decimal s) = k \<and>
                           round64 (of_nat s * 10 powi (n - int k)) = round64 a"])
  then show ?thesis by blast
qed

lemma shortest_digits_round:
  assumes "is_binary64 a" "0 < a" "shortest_digits a = (s, n)"
  shows "0 < s \<and> round64 (of_nat s * 10 powi (n - int (length (decimal s)))) = Finite a"
proof (cases "List.find (\<lambda>k. digits64 a k \<noteq> []) [1 ..< 18]")
  case None
  with assms(3) have "exact_digits a = (s, n)"
    by (simp add: shortest_digits_def)
  from exact_digits_value [OF assms(1,2) this] show ?thesis
    by (simp add: round64_binary64 [OF assms(1,2)])
next
  case (Some k)
  then have ne: "digits64 a k \<noteq> []"
    by (auto simp: find_Some_iff)
  from Some assms(3) have "(s, n) = closest64 a (hd (digits64 a k)) (tl (digits64 a k))"
    by (simp add: shortest_digits_def)
  then have "(s, n) \<in> set (hd (digits64 a k) # tl (digits64 a k))"
    using closest64_mem [of a "hd (digits64 a k)" "tl (digits64 a k)"] by simp
  with ne have "(s, n) \<in> set (digits64 a k)"
    by simp
  from digits64_mem [OF this] show ?thesis
    by (simp add: round64_binary64 [OF assms(1,2)])
qed

subsection \<open>Reading the four notations\<close>

lemma decimal_first_digit:
  "0 < n \<Longrightarrow> \<exists>c cs. decimal n = c # cs \<and> c \<noteq> CHR ''0''"
proof (induction n rule: decimal.induct)
  case (1 n)
  show ?case
  proof (cases "n < 10")
    case True
    with \<open>0 < n\<close> have "n \<in> set [1 ..< 10]" by simp
    then have "digit_char n \<noteq> CHR ''0''"
      by (auto simp: upt_rec digit_char_def)
    with True show ?thesis
      by (simp add: decimal.simps [of n])
  next
    case False
    then have "0 < n div 10" by simp
    with False "1.IH" obtain c cs where "decimal (n div 10) = c # cs" "c \<noteq> CHR ''0''"
      by blast
    with False show ?thesis
      by (simp add: decimal.simps [of n])
  qed
qed

lemma is_digit_not_letter:
  "is_digit c \<Longrightarrow> c \<noteq> CHR ''e'' \<and> c \<noteq> CHR ''E'' \<and> c \<noteq> CHR ''+''"
  by (auto simp: is_digit_def)

lemma take_digits:
  assumes "list_all is_digit ds" "takeWhile is_digit t = []"
  shows "takeWhile is_digit (ds @ t) = ds" "dropWhile is_digit (ds @ t) = t"
proof -
  from assms(1) have all: "\<And>x. x \<in> set ds \<Longrightarrow> is_digit x"
    by (simp add: list_all_iff)
  then show "takeWhile is_digit (ds @ t) = ds"
    by (simp add: takeWhile_append2 assms(2))
  have "dropWhile is_digit (ds @ t) = dropWhile is_digit t"
    using all by (simp add: dropWhile_append2)
  also have "\<dots> = takeWhile is_digit t @ dropWhile is_digit t"
    by (simp only: assms(2) append_Nil)
  also have "\<dots> = t"
    by (rule takeWhile_dropWhile_id)
  finally show "dropWhile is_digit (ds @ t) = t" .
qed

lemma integer_part_digits:
  assumes "list_all is_digit (c # cs)" "c \<noteq> CHR ''0''" "takeWhile is_digit t = []"
  shows "parse_integer_part (c # cs @ t) = Some (c # cs, t)"
proof -
  from assms(1) have "is_digit c" by simp
  moreover have "takeWhile is_digit ((c # cs) @ t) = c # cs" "dropWhile is_digit ((c # cs) @ t) = t"
    by (rule take_digits [OF assms(1,3)])+
  ultimately show ?thesis
    using assms(2) by (simp add: parse_integer_part_def)
qed

lemma integer_part_zero: "parse_integer_part (CHR ''0'' # t) = Some (''0'', t)"
  by (simp add: parse_integer_part_def)

lemma fraction_digits:
  assumes "list_all is_digit ds" "ds \<noteq> []" "takeWhile is_digit t = []"
  shows "parse_fraction (CHR ''.'' # ds @ t) = Some (ds, t)"
  using take_digits [OF assms(1,3)] assms(2) by (simp add: parse_fraction_def)

lemma fraction_none: "t = [] \<or> hd t \<noteq> CHR ''.'' \<Longrightarrow> parse_fraction t = Some ([], t)"
  by (cases t) (simp_all add: parse_fraction_def)

lemma exponent_none:
  "t = [] \<or> (hd t \<noteq> CHR ''e'' \<and> hd t \<noteq> CHR ''E'') \<Longrightarrow> parse_exponent t = Some (0, t)"
  by (cases t) (simp_all add: parse_exponent_def)

lemma exponent_digits:
  assumes "takeWhile is_digit t = []"
  shows "parse_exponent (CHR ''e'' # CHR ''+'' # decimal m @ t) = Some (int m, t)"
    and "parse_exponent (CHR ''e'' # CHR ''-'' # decimal m @ t) = Some (- int m, t)"
proof -
  have d: "list_all is_digit (decimal m)" "decimal m \<noteq> []" "digits_value (decimal m) = m"
    using decimal_digits [of m] by simp_all
  note t = take_digits [OF d(1) assms]
  show "parse_exponent (CHR ''e'' # CHR ''+'' # decimal m @ t) = Some (int m, t)"
    by (simp add: parse_exponent_def t d)
  show "parse_exponent (CHR ''e'' # CHR ''-'' # decimal m @ t) = Some (- int m, t)"
    by (simp add: parse_exponent_def t d)
qed

lemma magnitude_value:
  "(of_nat (digits_value ip) + of_nat (digits_value fp) / 10 ^ length fp) * 10 powi e =
     (of_nat (digits_value (ip @ fp)) :: rat) * 10 powi (e - int (length fp))"
proof -
  have "(10::rat) powi (e - int (length fp)) = 10 powi e / 10 ^ length fp"
    by (simp add: power_int_diff)
  then show ?thesis
    by (simp add: digits_value_append field_simps)
qed

lemma parse_magnitude_parts:
  assumes "parse_integer_part t = Some (ip, t2)" "parse_fraction t2 = Some (fp, t3)"
    and "parse_exponent t3 = Some (e, t4)"
  shows "parse_magnitude t =
           Some (of_nat (digits_value (ip @ fp)) * 10 powi (e - int (length fp)), t4)"
  using assms by (simp add: parse_magnitude_def magnitude_value)

lemma delimited_end:
  assumes "delimited rest"
  shows "takeWhile is_digit rest = []" "rest = [] \<or> hd rest \<noteq> CHR ''.''"
    "rest = [] \<or> (hd rest \<noteq> CHR ''e'' \<and> hd rest \<noteq> CHR ''E'')"
  using assms by (cases rest; auto simp: delimited_def is_digit_def)+

lemma zeros_digits: "list_all is_digit (replicate j CHR ''0'')" "digits_value (replicate j CHR ''0'') = 0"
proof -
  show "list_all is_digit (replicate j CHR ''0'')"
    by (induction j) (simp_all add: is_digit_def)
  show "digits_value (replicate j CHR ''0'') = 0"
    using digits_value_zeros [of j "[]"] by (simp add: digits_value_def)
qed

lemma magnitude_integer:
  assumes "list_all is_digit (c # cs)" "c \<noteq> CHR ''0''" "delimited rest"
  shows "parse_magnitude ((c # cs) @ replicate j CHR ''0'' @ rest) =
           Some (of_nat (digits_value (c # cs)) * 10 ^ j, rest)"
proof -
  let ?z = "replicate j CHR ''0''"
  have "list_all is_digit (c # (cs @ ?z))"
    using assms(1) zeros_digits(1) [of j] by simp
  from integer_part_digits [OF this assms(2) delimited_end(1) [OF assms(3)]]
  have "parse_integer_part ((c # cs) @ ?z @ rest) = Some ((c # cs) @ ?z, rest)"
    by simp
  from parse_magnitude_parts [OF this fraction_none [OF delimited_end(2) [OF assms(3)]]
      exponent_none [OF delimited_end(3) [OF assms(3)]]]
  have "parse_magnitude ((c # cs) @ ?z @ rest) =
          Some (of_nat (digits_value (c # cs @ ?z)), rest)"
    by simp
  moreover have "digits_value (c # cs @ ?z) = digits_value (c # cs) * 10 ^ j"
    using digits_value_append [of "c # cs" ?z] by (simp add: zeros_digits(2))
  ultimately show ?thesis
    by simp
qed

lemma magnitude_point:
  assumes "list_all is_digit (c # cs)" "c \<noteq> CHR ''0''" "list_all is_digit fp" "fp \<noteq> []"
    and "delimited rest"
  shows "parse_magnitude ((c # cs) @ ''.'' @ fp @ rest) =
           Some (of_nat (digits_value ((c # cs) @ fp)) * 10 powi (- int (length fp)), rest)"
proof -
  have "takeWhile is_digit (CHR ''.'' # fp @ rest) = []"
    by (simp add: is_digit_def)
  from integer_part_digits [OF assms(1,2) this]
  have "parse_integer_part ((c # cs) @ ''.'' @ fp @ rest) = Some (c # cs, CHR ''.'' # fp @ rest)"
    by simp
  from parse_magnitude_parts [OF this fraction_digits [OF assms(3,4) delimited_end(1) [OF assms(5)]]
      exponent_none [OF delimited_end(3) [OF assms(5)]]]
  show ?thesis
    by simp
qed

lemma magnitude_small:
  assumes "list_all is_digit ds" "ds \<noteq> []" "delimited rest"
  shows "parse_magnitude (''0.'' @ replicate j CHR ''0'' @ ds @ rest) =
           Some (of_nat (digits_value ds) * 10 powi (- int (j + length ds)), rest)"
proof -
  let ?fp = "replicate j CHR ''0'' @ ds"
  have fp: "list_all is_digit ?fp" "?fp \<noteq> []"
    using assms(1,2) zeros_digits(1) [of j] by simp_all
  have "parse_integer_part (''0.'' @ ?fp @ rest) = Some (''0'', CHR ''.'' # ?fp @ rest)"
    by (simp add: integer_part_zero)
  from parse_magnitude_parts [OF this fraction_digits [OF fp delimited_end(1) [OF assms(3)]]
      exponent_none [OF delimited_end(3) [OF assms(3)]]]
  have "parse_magnitude (''0.'' @ ?fp @ rest) =
          Some (of_nat (digits_value (''0'' @ ?fp)) * 10 powi (0 - int (length ?fp)), rest)" .
  moreover have "digits_value (''0'' @ ?fp) = digits_value ds"
    using digits_value_zeros [of "Suc j" ds] by simp
  ultimately show ?thesis
    by simp
qed

lemma magnitude_exponent_one:
  assumes "is_digit c" "c \<noteq> CHR ''0''" "delimited rest" "sign = CHR ''+'' \<or> sign = CHR ''-''"
  shows "parse_magnitude ([c] @ ''e'' @ [sign] @ decimal m @ rest) =
           Some (of_nat (digits_value [c]) *
                   10 powi (if sign = CHR ''+'' then int m else - int m), rest)"
proof -
  let ?t = "CHR ''e'' # sign # decimal m @ rest"
  have c: "list_all is_digit [c]" using assms(1) by simp
  have "takeWhile is_digit ?t = []"
    by (simp add: is_digit_def)
  from integer_part_digits [OF c assms(2) this]
  have ip: "parse_integer_part ([c] @ ''e'' @ [sign] @ decimal m @ rest) = Some ([c], ?t)"
    by simp
  have fp: "parse_fraction ?t = Some ([], ?t)"
    by (rule fraction_none) simp
  have "parse_exponent ?t = Some (if sign = CHR ''+'' then int m else - int m, rest)"
    using assms(4) exponent_digits [OF delimited_end(1) [OF assms(3)], of m] by auto
  from parse_magnitude_parts [OF ip fp this] show ?thesis
    by simp
qed

lemma magnitude_exponent_more:
  assumes "is_digit c" "c \<noteq> CHR ''0''" "list_all is_digit fp" "fp \<noteq> []" "delimited rest"
    and "sign = CHR ''+'' \<or> sign = CHR ''-''"
  shows "parse_magnitude ([c] @ ''.'' @ fp @ ''e'' @ [sign] @ decimal m @ rest) =
           Some (of_nat (digits_value (c # fp)) *
                   10 powi ((if sign = CHR ''+'' then int m else - int m) - int (length fp)), rest)"
proof -
  let ?t = "CHR ''e'' # sign # decimal m @ rest"
  have c: "list_all is_digit [c]" using assms(1) by simp
  have "takeWhile is_digit (CHR ''.'' # fp @ ?t) = []"
    by (simp add: is_digit_def)
  from integer_part_digits [OF c assms(2) this]
  have ip: "parse_integer_part ([c] @ ''.'' @ fp @ ''e'' @ [sign] @ decimal m @ rest) =
              Some ([c], CHR ''.'' # fp @ ?t)"
    by simp
  have "takeWhile is_digit ?t = []"
    by (simp add: is_digit_def)
  from fraction_digits [OF assms(3,4) this]
  have fp: "parse_fraction (CHR ''.'' # fp @ ?t) = Some (fp, ?t)" .
  have "parse_exponent ?t = Some (if sign = CHR ''+'' then int m else - int m, rest)"
    using assms(6) exponent_digits [OF delimited_end(1) [OF assms(5)], of m] by auto
  from parse_magnitude_parts [OF ip fp this] show ?thesis
    by simp
qed

lemma parse_magnitude_notation:
  assumes "0 < s" "delimited rest"
  shows "parse_magnitude (number_notation (decimal s) n @ rest) =
           Some (of_nat s * 10 powi (n - int (length (decimal s))), rest)"
proof -
  from decimal_first_digit [OF assms(1)] obtain c cs
    where ds: "decimal s = c # cs" and c: "c \<noteq> CHR ''0''"
    by blast
  have digits: "list_all is_digit (c # cs)" and val: "digits_value (c # cs) = s"
    using decimal_digits [of s] by (simp_all add: ds)
  define k where "k = int (length (c # cs))"
  have k: "1 \<le> k" by (simp add: k_def)
  consider "k \<le> n" "n \<le> 21" | "n < k" "0 < n" "n \<le> 21" | "- 6 < n" "n \<le> 0"
    | "n \<le> - 6 \<or> 21 < n" "cs = []" | "n \<le> - 6 \<or> 21 < n" "cs \<noteq> []"
    using k by linarith
  then have "parse_magnitude (number_notation (c # cs) n @ rest) =
               Some (of_nat s * 10 powi (n - k), rest)"
  proof cases
    case 1
    then have "number_notation (c # cs) n = (c # cs) @ replicate (nat (n - k)) CHR ''0''"
      unfolding number_notation_def Let_def k_def [symmetric] by simp
    moreover from 1 have "(10::rat) powi (n - k) = 10 ^ nat (n - k)"
      by (simp add: power_int_def)
    ultimately show ?thesis
      using magnitude_integer [OF digits c assms(2), of "nat (n - k)"] by (simp add: val)
  next
    case 2
    let ?ip = "take (nat n - 1) cs"
    let ?fp = "drop (nat n) (c # cs)"
    have split: "c # cs = (c # ?ip) @ ?fp"
      using 2 by (cases "nat n") simp_all
    have ip: "list_all is_digit (c # ?ip)" and fp: "list_all is_digit ?fp"
      using digits by (subst (asm) split, simp)+
    have ne: "?fp \<noteq> []"
      using 2 by (simp add: k_def)
    have len: "- int (length ?fp) = n - k"
      using 2 by (simp add: k_def)
    from 2 k have "number_notation (c # cs) n = take (nat n) (c # cs) @ ''.'' @ ?fp"
      unfolding number_notation_def Let_def k_def [symmetric] by simp
    also have "take (nat n) (c # cs) = c # ?ip"
      using 2 by (cases "nat n") simp_all
    finally have "number_notation (c # cs) n = (c # ?ip) @ ''.'' @ ?fp" .
    moreover have "digits_value ((c # ?ip) @ ?fp) = s"
      using val by (simp only: split [symmetric])
    ultimately show ?thesis
      using magnitude_point [OF ip c fp ne assms(2)] by (simp only: len append_assoc)
  next
    case 3
    then have "number_notation (c # cs) n = ''0.'' @ replicate (nat (- n)) CHR ''0'' @ c # cs"
      unfolding number_notation_def Let_def k_def [symmetric] using k by simp
    moreover from 3 have "- int (nat (- n) + length (c # cs)) = n - k"
      by (simp add: k_def)
    ultimately show ?thesis
      using magnitude_small [OF digits _ assms(2), of "nat (- n)"] by (simp only: val) simp
  next
    case 4
    define sign where "sign = (if 0 \<le> n - 1 then CHR ''+'' else CHR ''-'')"
    have sign: "sign = CHR ''+'' \<or> sign = CHR ''-''"
      by (simp add: sign_def)
    from 4 k have "number_notation (c # cs) n = [c] @ ''e'' @ [sign] @ decimal (nat \<bar>n - 1\<bar>)"
      unfolding number_notation_def Let_def k_def [symmetric] by (auto simp: sign_def k_def)
    moreover have "(if sign = CHR ''+'' then int (nat \<bar>n - 1\<bar>) else - int (nat \<bar>n - 1\<bar>)) = n - k"
      using 4 by (auto simp: sign_def k_def)
    moreover have "is_digit c"
      using digits by simp
    ultimately show ?thesis
      using magnitude_exponent_one [OF _ c assms(2) sign, of "nat \<bar>n - 1\<bar>"] val 4(2)
      by (simp only: append_assoc)
  next
    case 5
    define sign where "sign = (if 0 \<le> n - 1 then CHR ''+'' else CHR ''-'')"
    have sign: "sign = CHR ''+'' \<or> sign = CHR ''-''"
      by (simp add: sign_def)
    from 5 k have "number_notation (c # cs) n =
                     [c] @ ''.'' @ cs @ ''e'' @ [sign] @ decimal (nat \<bar>n - 1\<bar>)"
      unfolding number_notation_def Let_def k_def [symmetric] by (auto simp: sign_def k_def)
    moreover have "(if sign = CHR ''+'' then int (nat \<bar>n - 1\<bar>) else - int (nat \<bar>n - 1\<bar>))
                     - int (length cs) = n - k"
      using 5 by (auto simp: sign_def k_def)
    moreover have "is_digit c" "list_all is_digit cs"
      using digits by simp_all
    ultimately show ?thesis
      using magnitude_exponent_more [OF _ c _ 5(2) assms(2) sign, of "nat \<bar>n - 1\<bar>"] val
      by (simp only: append_assoc)
  qed
  then show ?thesis
    by (simp only: ds k_def)
qed

subsection \<open>A number printed and read again\<close>

lemma notation_first_digit:
  assumes "0 < s"
  shows "\<exists>c t. number_notation (decimal s) n = c # t \<and> is_digit c"
proof -
  from decimal_first_digit [OF assms] obtain c cs where ds: "decimal s = c # cs"
    by blast
  have c: "is_digit c"
    using decimal_digits [of s] by (simp add: ds)
  have zero: "is_digit CHR ''0''"
    by (simp add: is_digit_def)
  have "hd (number_notation (c # cs) n) = c \<or> hd (number_notation (c # cs) n) = CHR ''0''"
    and "number_notation (c # cs) n \<noteq> []"
    by (auto simp: number_notation_def Let_def hd_append take_Cons' split: if_splits)
  with c zero show ?thesis
    unfolding ds by (cases "number_notation (c # cs) n") auto
qed

lemma positive_printed_read:
  assumes "is_binary64 a" "0 < a" "delimited rest"
  obtains c t v where "Number_toString_positive a = c # t" "is_digit c"
    "parse_magnitude (c # t @ rest) = Some (v, rest)" "round64 v = Finite a"
proof -
  obtain s n where sn: "shortest_digits a = (s, n)"
    by (cases "shortest_digits a")
  from shortest_digits_round [OF assms(1,2) sn]
  have s: "0 < s" and r: "round64 (of_nat s * 10 powi (n - int (length (decimal s)))) = Finite a"
    by simp_all
  have printed: "Number_toString_positive a = number_notation (decimal s) n"
    by (simp add: Number_toString_positive_def sn)
  from notation_first_digit [OF s, of n] obtain c t
    where ct: "number_notation (decimal s) n = c # t" "is_digit c"
    by blast
  from parse_magnitude_notation [OF s assms(3), of n]
  have "parse_magnitude (c # t @ rest) =
          Some (of_nat s * 10 powi (n - int (length (decimal s))), rest)"
    by (simp add: ct)
  with printed ct r show ?thesis
    by (auto intro: that)
qed

lemma zero_read:
  assumes "delimited rest"
  shows "parse_number (''0'' @ rest) = Some (Finite 0, rest)"
proof -
  have "parse_integer_part (''0'' @ rest) = Some (''0'', rest)"
    by (simp add: integer_part_zero)
  from parse_magnitude_parts [OF this fraction_none [OF delimited_end(2) [OF assms]]
      exponent_none [OF delimited_end(3) [OF assms]]]
  have "parse_magnitude (''0'' @ rest) = Some (0, rest)"
    by (simp add: digits_value_def digit_value_def)
  then show ?thesis
    by (simp add: parse_number_def signed_number_def round64_def)
qed

lemma number_printed_read:
  assumes "json_number n" "delimited rest"
  shows "parse_number (Number_toString n @ rest) =
           Some (if n = NegZero then Finite 0 else n, rest)"
proof (cases n)
  case (Finite x)
  with assms(1) have b: "is_binary64 x" by simp
  consider "x = 0" | "0 < x" | "x < 0" by linarith
  then show ?thesis
  proof cases
    case 1
    with Finite show ?thesis
      using zero_read [OF assms(2)] by simp
  next
    case 2
    from positive_printed_read [OF b 2 assms(2)] obtain c t v
      where p: "Number_toString_positive x = c # t" "is_digit c"
        "parse_magnitude (c # t @ rest) = Some (v, rest)" "round64 v = Finite x"
      by blast
    from p(2) have "c \<noteq> CHR ''-''"
      by (simp add: is_digit_not_minus)
    with p 2 Finite show ?thesis
      by (simp add: parse_number_def signed_number_def)
  next
    case 3
    then have pos: "0 < - x" by simp
    from b have "is_binary64 (- x)"
      by (simp add: is_binary64_def)
    from positive_printed_read [OF this pos assms(2)] obtain c t v
      where p: "Number_toString_positive (- x) = c # t" "is_digit c"
        "parse_magnitude (c # t @ rest) = Some (v, rest)" "round64 v = Finite (- x)"
      by blast
    with 3 Finite show ?thesis
      by (simp add: parse_number_def signed_number_def)
  qed
next
  case NegZero
  then show ?thesis
    using zero_read [OF assms(2)] by simp
qed (use assms(1) in simp_all)

lemma number_first_char:
  assumes "json_number n"
  shows "\<exists>c t. Number_toString n = c # t \<and> (is_digit c \<or> c = CHR ''-'')"
proof (cases n)
  case (Finite x)
  with assms(1) have b: "is_binary64 x" by simp
  have d: "delimited []" by (simp add: delimited_def)
  consider "x = 0" | "0 < x" | "x < 0" by linarith
  then show ?thesis
  proof cases
    case 1
    with Finite show ?thesis by (simp add: is_digit_def)
  next
    case 2
    from positive_printed_read [OF b 2 d] obtain c t
      where "Number_toString_positive x = c # t" "is_digit c"
      by blast
    with 2 Finite show ?thesis by simp
  next
    case 3
    with Finite show ?thesis by simp
  qed
next
  case NegZero
  then show ?thesis by (simp add: is_digit_def)
qed (use assms(1) in simp_all)

section \<open>Values through JSON\<close>

text \<open>
  The text that JSON.stringify gives for a value made of \<^verbatim>\<open>null\<close>, booleans, finite
  numbers, strings, arrays and objects is read back by JSON.parse as that value with the
  positive zero for every negative one.
\<close>

subsection \<open>The steps of the parser\<close>

lemma skip_ws_char: "\<not> is_ws c \<Longrightarrow> skip_ws (c # cs) = c # cs"
  by (simp add: skip_ws_def)

lemma skip_ws_delimited: "delimited rest \<Longrightarrow> skip_ws rest = rest"
  by (cases rest) (auto simp: delimited_def skip_ws_def is_ws_def)

lemma parse_value_null: "parse_value (Suc f) (''null'' @ rest) = Some (JNull, rest)"
  by (simp add: skip_ws_def is_ws_def)

lemma parse_value_true: "parse_value (Suc f) (''true'' @ rest) = Some (JBool True, rest)"
  by (simp add: skip_ws_def is_ws_def)

lemma parse_value_false: "parse_value (Suc f) (''false'' @ rest) = Some (JBool False, rest)"
  by (simp add: skip_ws_def is_ws_def)

lemma parse_value_number:
  assumes "is_digit c \<or> c = CHR ''-''" "parse_number (c # t) = Some (n, rest)"
  shows "parse_value (Suc f) (c # t) = Some (JNum n, rest)"
proof -
  from assms(1) have c: "\<not> is_ws c" "c \<noteq> CHR ''[''" "c \<noteq> CHR ''{''" "c \<noteq> CHR 0x22"
    "c \<noteq> CHR ''n''" "c \<noteq> CHR ''t''" "c \<noteq> CHR ''f''"
    by (auto simp: is_digit_def is_ws_def)
  have "take 4 (c # t) \<noteq> ''null''" "take 4 (c # t) \<noteq> ''true''" "take 5 (c # t) \<noteq> ''false''"
    using c by (simp_all add: take_Cons')
  then show ?thesis
    using c assms(2) by (simp add: skip_ws_char del: take_Suc_Cons)
qed

lemma parse_value_string: "parse_value (Suc f) (QuoteJSONString s @ rest) = Some (JStr s, rest)"
proof -
  obtain t where t: "QuoteJSONString s @ rest = CHR 0x22 # t"
    by (simp add: QuoteJSONString_def)
  have "parse_string (CHR 0x22 # t) = Some (s, rest)"
    using parse_string_quoted [of s rest] by (simp only: t)
  then show ?thesis
    unfolding t by (simp add: skip_ws_def is_ws_def)
qed

lemma parse_value_empty_array: "parse_value (Suc f) (''[]'' @ rest) = Some (JArr [], rest)"
  by (simp add: skip_ws_def is_ws_def)

lemma parse_value_empty_object: "parse_value (Suc f) (''{}'' @ rest) = Some (JObj [], rest)"
  by (simp add: skip_ws_def is_ws_def)

lemma parse_value_array:
  assumes "\<not> is_ws d" "d \<noteq> CHR '']''" "parse_elements f (d # ds) = Some (xs, rest)"
  shows "parse_value (Suc f) (CHR ''['' # d # ds) = Some (JArr xs, rest)"
  using assms by (simp add: skip_ws_def is_ws_def)

lemma parse_value_object:
  assumes "\<not> is_ws d" "d \<noteq> CHR ''}''" "parse_members f (d # ds) = Some (ms, rest)"
  shows "parse_value (Suc f) (CHR ''{'' # d # ds) = Some (make_object ms, rest)"
  using assms by (simp add: skip_ws_def is_ws_def)

lemma parse_elements_last:
  assumes "parse_value f s = Some (x, CHR '']'' # rest)"
  shows "parse_elements (Suc f) s = Some ([x], rest)"
  using assms by (simp add: skip_ws_def is_ws_def)

lemma parse_elements_more:
  assumes "parse_value f s = Some (x, CHR '','' # s')" "parse_elements f s' = Some (xs, rest)"
  shows "parse_elements (Suc f) s = Some (x # xs, rest)"
  using assms by (simp add: skip_ws_def is_ws_def)

lemma parse_members_key:
  "parse_string (skip_ws (QuoteJSONString k @ t)) = Some (k, t)"
proof -
  obtain u where u: "QuoteJSONString k @ t = CHR 0x22 # u"
    by (simp add: QuoteJSONString_def)
  have "skip_ws (CHR 0x22 # u) = CHR 0x22 # u"
    by (rule skip_ws_char) (simp add: is_ws_def)
  then show ?thesis
    using parse_string_quoted [of k t] by (simp only: u)
qed

lemma parse_members_last:
  assumes "parse_value f s = Some (v, CHR ''}'' # rest)"
  shows "parse_members (Suc f) (QuoteJSONString k @ '':'' @ s) = Some ([(k, v)], rest)"
  using assms parse_members_key [of k "'':'' @ s"] by (simp add: skip_ws_def is_ws_def)

lemma parse_members_more:
  assumes "parse_value f s = Some (v, CHR '','' # s')" "parse_members f s' = Some (ms, rest)"
  shows "parse_members (Suc f) (QuoteJSONString k @ '':'' @ s) = Some ((k, v) # ms, rest)"
  using assms parse_members_key [of k "'':'' @ s"] by (simp add: skip_ws_def is_ws_def)

subsection \<open>The text of a value\<close>

lemma value_text:
  assumes "json_value v"
  obtains t c u where "SerializeJSONProperty v = Some t" "t = c # u" "\<not> is_ws c"
    "c \<noteq> CHR '']''" "c \<noteq> CHR ''}''"
proof (cases v)
  case JUndefined
  with assms show ?thesis by simp
next
  case JNull
  then show ?thesis
    by (intro that [of "''null''" "CHR ''n''" "''ull''"]) (simp_all add: is_ws_def)
next
  case (JBool b)
  show ?thesis
  proof (cases b)
    case True
    with JBool show ?thesis
      by (intro that [of "''true''" "CHR ''t''" "''rue''"]) (simp_all add: is_ws_def)
  next
    case False
    with JBool show ?thesis
      by (intro that [of "''false''" "CHR ''f''" "''alse''"]) (simp_all add: is_ws_def)
  qed
next
  case (JNum n)
  with assms have n: "json_number n" by simp
  then obtain x where x: "real_value n = Some x"
    by (cases n) simp_all
  from number_first_char [OF n] obtain c u
    where cu: "Number_toString n = c # u" "is_digit c \<or> c = CHR ''-''"
    by blast
  from cu(2) have "\<not> is_ws c" "c \<noteq> CHR '']''" "c \<noteq> CHR ''}''"
    by (auto simp: is_digit_def is_ws_def)
  with JNum x cu(1) show ?thesis
    by (intro that [of "Number_toString n" c u]) simp_all
next
  case (JStr s)
  then show ?thesis
    by (intro that [of "QuoteJSONString s" "CHR 0x22" "concat (map quote_char s) @ [CHR 0x22]"])
      (simp_all add: QuoteJSONString_def is_ws_def)
next
  case (JArr xs)
  then show ?thesis
    by (intro that [of "''['' @ join (SerializeJSONArray xs) @ '']''" "CHR ''[''"
          "join (SerializeJSONArray xs) @ '']''"]) (simp_all add: is_ws_def)
next
  case (JObj ps)
  then show ?thesis
    by (intro that [of "''{'' @ join (map member_text (property_order (SerializeJSONObject ps))) @ ''}''"
          "CHR ''{''" "join (map member_text (property_order (SerializeJSONObject ps))) @ ''}''"])
      (simp_all add: is_ws_def)
qed

lemma members_texts:
  "json_members ps \<Longrightarrow>
     SerializeJSONObject ps = map (\<lambda>p. (fst p, the (SerializeJSONProperty (snd p)))) ps"
proof (induction ps)
  case Nil
  show ?case by simp
next
  case (Cons p ps)
  obtain k v where p: "p = (k, v)" by (cases p)
  with Cons.prems have v: "json_value v" and ps: "json_members ps" by simp_all
  from value_text [OF v] obtain t where "SerializeJSONProperty v = Some t"
    by blast
  with Cons.IH [OF ps] p show ?case by simp
qed

lemma members_keys:
  "json_members ps \<Longrightarrow> map fst (SerializeJSONObject ps) = map fst ps"
  by (simp add: members_texts comp_def)

lemma insort_key_map:
  assumes "\<And>x. h (g x) = f x"
  shows "insort_key h (g x) (map g ys) = map g (insort_key f x ys)"
  by (induction ys) (simp_all add: assms)

lemma sort_key_map:
  assumes "\<And>x. h (g x) = f x"
  shows "sort_key h (map g xs) = map g (sort_key f xs)"
  by (induction xs) (simp_all add: insort_key_map [of h g f, OF assms])

lemma property_order_map:
  assumes "\<And>p. fst (g p) = fst p"
  shows "property_order (map g ps) = map g (property_order ps)"
proof -
  have "filter (\<lambda>p. is_array_index (fst p)) (map g ps) =
          map g (filter (\<lambda>p. is_array_index (fst p)) ps)"
    and "filter (\<lambda>p. \<not> is_array_index (fst p)) (map g ps) =
          map g (filter (\<lambda>p. \<not> is_array_index (fst p)) ps)"
    by (simp_all add: filter_map comp_def assms)
  moreover have "sort_key (\<lambda>p. digits_value (fst p)) (map g xs) =
                   map g (sort_key (\<lambda>p. digits_value (fst p)) xs)" for xs
    by (rule sort_key_map) (simp add: assms)
  ultimately show ?thesis
    by (simp add: property_order_def)
qed

lemma members_order:
  assumes "json_members ps" "property_order ps = ps"
  shows "property_order (SerializeJSONObject ps) = SerializeJSONObject ps"
proof -
  have "property_order (map (\<lambda>p. (fst p, the (SerializeJSONProperty (snd p)))) ps) =
          map (\<lambda>p. (fst p, the (SerializeJSONProperty (snd p)))) (property_order ps)"
    by (rule property_order_map) simp
  then show ?thesis
    by (simp only: members_texts [OF assms(1)] assms(2))
qed

lemma set_prop_new: "k \<notin> fst ` set obj \<Longrightarrow> set_prop k v obj = obj @ [(k, v)]"
  by (induction obj) auto

lemma make_object_distinct:
  "distinct (map fst (obj @ ms)) \<Longrightarrow>
     foldl (\<lambda>obj (k, v). set_prop k v obj) obj ms = obj @ ms"
proof (induction ms arbitrary: obj)
  case Nil
  show ?case by simp
next
  case (Cons m ms)
  obtain k v where m: "m = (k, v)" by (cases m)
  from Cons.prems have "k \<notin> fst ` set obj"
    by (auto simp: m)
  then have "set_prop k v obj = obj @ [(k, v)]"
    by (rule set_prop_new)
  moreover from Cons.prems have "distinct (map fst ((obj @ [(k, v)]) @ ms))"
    by (simp add: m)
  ultimately show ?case
    using Cons.IH [of "obj @ [(k, v)]"] by (simp add: m)
qed

lemma positive_zeros_keys: "map fst (positive_zeros_members ps) = map fst ps"
  by (induction ps) auto

lemma join_first: "join (t # ts) = t @ (if ts = [] then [] else '','' @ join ts)"
  by (cases ts) simp_all

lemma elements_start:
  assumes "json_values xs" "xs \<noteq> []"
  obtains c ds where "join (SerializeJSONArray xs) = c # ds" "\<not> is_ws c" "c \<noteq> CHR '']''"
proof -
  from assms obtain x ys where xs: "xs = x # ys" and x: "json_value x"
    by (cases xs) simp_all
  from value_text [OF x] obtain t c u
    where t: "SerializeJSONProperty x = Some t" "t = c # u" "\<not> is_ws c" "c \<noteq> CHR '']''"
    by blast
  have "join (SerializeJSONArray xs) =
          c # u @ (if SerializeJSONArray ys = [] then [] else '','' @ join (SerializeJSONArray ys))"
    by (simp add: xs t(1,2) join_first)
  then show ?thesis
    using t(3,4) by (rule that)
qed

lemma members_start:
  assumes "json_members ps" "ps \<noteq> []"
  obtains ds where "join (map member_text (SerializeJSONObject ps)) = CHR 0x22 # ds"
proof -
  from assms obtain k v qs where ps: "ps = (k, v) # qs" and v: "json_value v"
    by (cases ps) auto
  from value_text [OF v] obtain t where t: "SerializeJSONProperty v = Some t"
    by blast
  have "join (map member_text (SerializeJSONObject ps)) =
          CHR 0x22 # concat (map quote_char k) @ [CHR 0x22] @ '':'' @ t @
            (if map member_text (SerializeJSONObject qs) = [] then []
             else '','' @ join (map member_text (SerializeJSONObject qs)))"
    by (simp add: ps t join_first member_text_def QuoteJSONString_def)
  then show ?thesis
    by (rule that)
qed

lemma delimited_char:
  "delimited (CHR '','' # t)" "delimited (CHR '']'' # t)" "delimited (CHR ''}'' # t)" "delimited []"
  by (simp_all add: delimited_def)

lemma printed_read:
  "json_value v \<Longrightarrow> nodes v \<le> f \<Longrightarrow> delimited rest \<Longrightarrow>
     \<exists>t. SerializeJSONProperty v = Some t \<and> parse_value f (t @ rest) = Some (positive_zeros v, rest)"
  "json_values xs \<Longrightarrow> xs \<noteq> [] \<Longrightarrow> nodes_list xs \<le> f \<Longrightarrow>
     parse_elements f (join (SerializeJSONArray xs) @ '']'' @ rest) =
       Some (positive_zeros_list xs, rest)"
  "json_members ps \<Longrightarrow> ps \<noteq> [] \<Longrightarrow> nodes_members ps \<le> f \<Longrightarrow>
     parse_members f (join (map member_text (SerializeJSONObject ps)) @ ''}'' @ rest) =
       Some (positive_zeros_members ps, rest)"
proof (induction v and xs and ps arbitrary: f rest and f rest and f rest
    rule: nodes_nodes_list_nodes_members.induct)
  case (1 xs)
  from "1.prems"(2) obtain g where f: "f = Suc g" and g: "nodes_list xs \<le> g"
    by (cases f) simp_all
  from "1.prems"(1) have xs: "json_values xs" by simp
  show ?case
  proof (cases "xs = []")
    case True
    then show ?thesis
      using parse_value_empty_array [of g rest] by (simp add: f)
  next
    case False
    from elements_start [OF xs False] obtain c ds
      where c: "join (SerializeJSONArray xs) = c # ds" "\<not> is_ws c" "c \<noteq> CHR '']''"
      by blast
    from "1.IH" [OF xs False g, of rest]
    have "parse_elements g (c # ds @ '']'' @ rest) = Some (positive_zeros_list xs, rest)"
      by (simp add: c(1))
    from parse_value_array [OF c(2,3) this] show ?thesis
      by (simp add: f c(1))
  qed
next
  case (2 ps)
  from "2.prems"(2) obtain g where f: "f = Suc g" and g: "nodes_members ps \<le> g"
    by (cases f) simp_all
  from "2.prems"(1) have ps: "json_members ps" and keys: "distinct (map fst ps)"
    and plain: "property_order ps = ps"
    by simp_all
  have order: "property_order (SerializeJSONObject ps) = SerializeJSONObject ps"
    by (rule members_order [OF ps plain])
  show ?case
  proof (cases "ps = []")
    case True
    then show ?thesis
      using parse_value_empty_object [of g rest] by (simp add: f property_order_def)
  next
    case False
    from members_start [OF ps False] obtain ds
      where c: "join (map member_text (SerializeJSONObject ps)) = CHR 0x22 # ds"
      by blast
    from "2.IH" [OF ps False g, of rest]
    have "parse_members g (CHR 0x22 # ds @ ''}'' @ rest) = Some (positive_zeros_members ps, rest)"
      by (simp add: c)
    then have "parse_value (Suc g) (CHR ''{'' # CHR 0x22 # ds @ ''}'' @ rest) =
                 Some (make_object (positive_zeros_members ps), rest)"
      by (intro parse_value_object) (simp_all add: is_ws_def)
    moreover have "make_object (positive_zeros_members ps) = JObj (positive_zeros_members ps)"
      using make_object_distinct [of "[]" "positive_zeros_members ps"] keys
      by (simp add: make_object_def positive_zeros_keys)
    ultimately show ?thesis
      by (simp add: f order c)
  qed
next
  case 3
  then show ?case by simp
next
  case 4
  from "4.prems"(2) obtain g where f: "f = Suc g"
    by (cases f) simp_all
  show ?case
    using parse_value_null [of g rest] by (simp add: f)
next
  case (5 b)
  from "5.prems"(2) obtain g where f: "f = Suc g"
    by (cases f) simp_all
  show ?case
    using parse_value_true [of g rest] parse_value_false [of g rest] by (simp add: f)
next
  case (6 n)
  from "6.prems"(2) obtain g where f: "f = Suc g"
    by (cases f) simp_all
  from "6.prems"(1) have n: "json_number n" by simp
  then obtain x where x: "real_value n = Some x"
    by (cases n) simp_all
  from number_first_char [OF n] obtain c u
    where cu: "Number_toString n = c # u" "is_digit c \<or> c = CHR ''-''"
    by blast
  from number_printed_read [OF n "6.prems"(3)]
  have "parse_number (c # u @ rest) = Some (if n = NegZero then Finite 0 else n, rest)"
    by (simp add: cu(1))
  from parse_value_number [OF cu(2) this, of g] show ?case
    by (simp add: f x cu(1))
next
  case (7 s)
  from "7.prems"(2) obtain g where f: "f = Suc g"
    by (cases f) simp_all
  show ?case
    using parse_value_string [of g s rest] by (simp add: f)
next
  case 8
  then show ?case by simp
next
  case (9 x xs)
  from "9.prems"(3) obtain g where f: "f = Suc g" and gx: "nodes x \<le> g" and gxs: "nodes_list xs \<le> g"
    by (cases f) simp_all
  from "9.prems"(1) have x: "json_value x" and xs: "json_values xs" by simp_all
  show ?case
  proof (cases "xs = []")
    case True
    from "9.IH"(1) [OF x gx delimited_char(2), of rest] obtain t
      where t: "SerializeJSONProperty x = Some t"
        "parse_value g (t @ CHR '']'' # rest) = Some (positive_zeros x, CHR '']'' # rest)"
      by blast
    from parse_elements_last [OF t(2)] show ?thesis
      by (simp add: f True t(1))
  next
    case False
    let ?more = "join (SerializeJSONArray xs) @ '']'' @ rest"
    from "9.IH"(1) [OF x gx delimited_char(1), of ?more] obtain t
      where t: "SerializeJSONProperty x = Some t"
        "parse_value g (t @ CHR '','' # ?more) = Some (positive_zeros x, CHR '','' # ?more)"
      by blast
    from False have "SerializeJSONArray xs \<noteq> []"
      by (cases xs) simp_all
    then have "join (SerializeJSONArray (x # xs)) @ '']'' @ rest = t @ CHR '','' # ?more"
      by (simp add: t(1) join_first)
    with parse_elements_more [OF t(2) "9.IH"(2) [OF xs False gxs, of rest]] show ?thesis
      by (simp only: f positive_zeros_list.simps)
  qed
next
  case 10
  then show ?case by simp
next
  case (11 k v ps)
  from "11.prems"(3) obtain g where f: "f = Suc g" and gv: "nodes v \<le> g"
    and gps: "nodes_members ps \<le> g"
    by (cases f) simp_all
  from "11.prems"(1) have v: "json_value v" and ps: "json_members ps" by simp_all
  show ?case
  proof (cases "ps = []")
    case True
    from "11.IH"(1) [OF v gv delimited_char(3), of rest] obtain t
      where t: "SerializeJSONProperty v = Some t"
        "parse_value g (t @ CHR ''}'' # rest) = Some (positive_zeros v, CHR ''}'' # rest)"
      by blast
    from parse_members_last [OF t(2), of k] show ?thesis
      by (simp add: f True t(1) member_text_def)
  next
    case False
    let ?more = "join (map member_text (SerializeJSONObject ps)) @ ''}'' @ rest"
    from "11.IH"(1) [OF v gv delimited_char(1), of ?more] obtain t
      where t: "SerializeJSONProperty v = Some t"
        "parse_value g (t @ CHR '','' # ?more) = Some (positive_zeros v, CHR '','' # ?more)"
      by blast
    from members_keys [OF ps] False have "SerializeJSONObject ps \<noteq> []"
      by (cases ps) auto
    then have "join (map member_text (SerializeJSONObject ((k, v) # ps))) @ ''}'' @ rest =
                 QuoteJSONString k @ '':'' @ t @ CHR '','' # ?more"
      by (simp add: t(1) join_first member_text_def)
    with parse_members_more [OF t(2) "11.IH"(2) [OF ps False gps, of rest], of k] show ?thesis
      by (simp only: f positive_zeros_members.simps)
  qed
qed

subsection \<open>The length of the text is enough fuel\<close>

lemma join_length: "length (join (t # ts)) = length t + (if ts = [] then 0 else 1 + length (join ts))"
  by (cases ts) simp_all

lemma nodes_text:
  "json_value v \<Longrightarrow> SerializeJSONProperty v = Some t \<Longrightarrow> nodes v \<le> length t"
  "json_values xs \<Longrightarrow> nodes_list xs \<le> length (join (SerializeJSONArray xs)) + 1"
  "json_members ps \<Longrightarrow>
     nodes_members ps \<le> length (join (map member_text (SerializeJSONObject ps))) + 1"
proof (induction v and xs and ps arbitrary: t
    rule: nodes_nodes_list_nodes_members.induct)
  case (1 xs)
  from "1.prems"(1) have "json_values xs" by simp
  from "1.IH" [OF this] "1.prems"(2) show ?case by auto
next
  case (2 ps)
  from "2.prems"(1) have ps: "json_members ps"
    and plain: "property_order ps = ps"
    by simp_all
  have "property_order (SerializeJSONObject ps) = SerializeJSONObject ps"
    by (rule members_order [OF ps plain])
  with "2.IH" [OF ps] "2.prems"(2) show ?case by auto
next
  case 3
  then show ?case by simp
next
  case 4
  then show ?case by auto
next
  case (5 b)
  then show ?case by auto
next
  case (6 n)
  from "6.prems"(1) have n: "json_number n" by simp
  then obtain x where x: "real_value n = Some x"
    by (cases n) simp_all
  from number_first_char [OF n] obtain c u where "Number_toString n = c # u"
    by blast
  with "6.prems"(2) x show ?case by auto
next
  case (7 s)
  then show ?case by (auto simp: QuoteJSONString_def)
next
  case 8
  show ?case by simp
next
  case (9 x xs)
  from "9.prems" have x: "json_value x" and xs: "json_values xs" by simp_all
  from value_text [OF x] obtain t where t: "SerializeJSONProperty x = Some t"
    by blast
  have "nodes_list xs \<le> (if SerializeJSONArray xs = [] then 0 else 1 + length (join (SerializeJSONArray xs)))"
    using "9.IH"(2) [OF xs] by (cases xs) simp_all
  with "9.IH"(1) [OF x t] show ?case
    by (simp add: t join_length)
next
  case 10
  show ?case by simp
next
  case (11 k v ps)
  from "11.prems" have v: "json_value v" and ps: "json_members ps" by simp_all
  from value_text [OF v] obtain t where t: "SerializeJSONProperty v = Some t"
    by blast
  have "nodes_members ps \<le> (if SerializeJSONObject ps = [] then 0
          else 1 + length (join (map member_text (SerializeJSONObject ps))))"
    using "11.IH"(2) [OF ps] members_keys [OF ps] by (cases ps) auto
  moreover have "length t \<le> length (member_text (k, t))"
    by (simp add: member_text_def)
  ultimately show ?case
    using "11.IH"(1) [OF v t] by (simp add: t join_length)
qed

lemma stringify_parse:
  assumes "json_value v"
  obtains t where "JSON_stringify v = Some t" "JSON_parse t = Some (positive_zeros v)"
proof -
  from value_text [OF assms] obtain t where t: "SerializeJSONProperty v = Some t"
    by blast
  from printed_read(1) [OF assms nodes_text(1) [OF assms t] delimited_char(4)] t
  have "parse_value (length t) t = Some (positive_zeros v, [])"
    by simp
  then have "JSON_parse t = Some (positive_zeros v)"
    by (simp add: JSON_parse_def skip_ws_def)
  with t show ?thesis
    by (intro that [of t]) (simp_all add: JSON_stringify_def)
qed

section \<open>The round trip of the serializer\<close>

text \<open>
  Both branches of the serializer's conditional pass the schema on unchanged: the text
  it returns is that of \<^verbatim>\<open>JSON.stringify\<close> on its argument, in brackets for an array
  and in braces for an object.
\<close>

lemma createJsonLdScript_forwards: "createJsonLdScript schema = JSON_stringify schema"
  by (simp add: createJsonLdScript_def)

lemma serializer_shape:
  "createJsonLdScript (JArr xs) = Some t \<Longrightarrow> array_text t \<and> \<not> object_text t"
  "createJsonLdScript (JObj ps) = Some t \<Longrightarrow> object_text t \<and> \<not> array_text t"
  by (auto simp: createJsonLdScript_def JSON_stringify_def array_text_def object_text_def)

lemma serializer_parse:
  assumes "json_value schema"
  obtains t where "createJsonLdScript schema = Some t" "JSON_parse t = Some (positive_zeros schema)"
  using stringify_parse [OF assms] by (auto simp: createJsonLdScript_forwards)

text \<open>
  C2, as the code has it: for every schema record, or list of schema records, that is
  made of \<^verbatim>\<open>null\<close>, booleans, finite numbers other than the negative zero, strings,
  arrays and objects, the serializer returns a text, and parsing that text as JSON gives
  the input back. The text is that of an array exactly when the input is a list, and
  that of an object otherwise.
\<close>

theorem serializer_round_trip:
  assumes "json_representable schema" "isObject schema \<or> isArray schema"
  shows "\<exists>t. createJsonLdScript schema = Some t \<and> JSON_parse t = Some schema \<and>
             array_text t = isArray schema \<and> object_text t = (\<not> isArray schema)"
proof -
  from assms(1) have v: "json_value schema" and z: "positive_zeros schema = schema"
    by (simp_all add: json_representable_def)
  from serializer_parse [OF v] obtain t
    where t: "createJsonLdScript schema = Some t" "JSON_parse t = Some (positive_zeros schema)"
    by blast
  from assms(2) t(1) have "array_text t = isArray schema \<and> object_text t = (\<not> isArray schema)"
    using serializer_shape [of _ t] by (cases schema) auto
  with t z show ?thesis
    by simp
qed

text \<open>
  C2 at a list of two schemas: the organization of the test suite and the breadcrumb
  list of its two breadcrumbs, with the positions 1 and 2.
\<close>

theorem serializer_round_trip_witness:
  "json_representable
     (JArr [JObj [(''@context'', JStr ''https://schema.org''), (''@type'', JStr ''Organization''),
                  (''name'', JStr ''Test Org'')],
            JObj (createBreadcrumbSchema
              [\<lparr>bc_name = ''Home'', bc_url = ''https://example.com''\<rparr>,
               \<lparr>bc_name = ''Products'', bc_url = ''https://example.com/products''\<rparr>])]) \<and>
   (\<exists>t. createJsonLdScript
     (JArr [JObj [(''@context'', JStr ''https://schema.org''), (''@type'', JStr ''Organization''),
                  (''name'', JStr ''Test Org'')],
            JObj (createBreadcrumbSchema
              [\<lparr>bc_name = ''Home'', bc_url = ''https://example.com''\<rparr>,
               \<lparr>bc_name = ''Products'', bc_url = ''https://example.com/products''\<rparr>])]) = Some t \<and>
     JSON_parse t = Some
     (JArr [JObj [(''@context'', JStr ''https://schema.org''), (''@type'', JStr ''Organization''),
                  (''name'', JStr ''Test Org'')],
            JObj (createBreadcrumbSchema
              [\<lparr>bc_name = ''Home'', bc_url = ''https://example.com''\<rparr>,
               \<lparr>bc_name = ''Products'', bc_url = ''https://example.com/products''\<rparr>])]) \<and>
     array_text t \<and> \<not> object_text t)"
proof -
  have one: "is_binary64 1" and two: "is_binary64 2"
    by (simp_all add: is_binary64_def exponent64_def floor_log2_def bit_length.simps power_int_minus)
  have "json_representable
     (JArr [JObj [(''@context'', JStr ''https://schema.org''), (''@type'', JStr ''Organization''),
                  (''name'', JStr ''Test Org'')],
            JObj (createBreadcrumbSchema
              [\<lparr>bc_name = ''Home'', bc_url = ''https://example.com''\<rparr>,
               \<lparr>bc_name = ''Products'', bc_url = ''https://example.com/products''\<rparr>])])"
    by (simp add: json_representable_def createBreadcrumbSchema_def property_order_def
          is_array_index_def is_digit_def one two)
  then show ?thesis
    using serializer_round_trip [of
     "JArr [JObj [(''@context'', JStr ''https://schema.org''), (''@type'', JStr ''Organization''),
                  (''name'', JStr ''Test Org'')],
            JObj (createBreadcrumbSchema
              [\<lparr>bc_name = ''Home'', bc_url = ''https://example.com''\<rparr>,
               \<lparr>bc_name = ''Products'', bc_url = ''https://example.com/products''\<rparr>])]"]
    by simp
qed

text \<open>
  C2 as stated fails: a record whose number is the negative zero is made of values that
  JSON has (the text \<^verbatim>\<open>-0\<close> is the negative zero); its text ends with \<^verbatim>\<open>:0}\<close>,
  the digit 0 without the sign, and parsing gives the positive zero, which is another
  number.
\<close>

theorem serializer_round_trip_counterexample:
  "json_value (JObj [(''@context'', JStr ''https://schema.org''), (''@type'', JStr ''Thing''),
                     (''elevation'', JNum NegZero)]) \<and>
   JSON_parse ''-0'' = Some (JNum NegZero) \<and>
   createJsonLdScript (JObj [(''@context'', JStr ''https://schema.org''), (''@type'', JStr ''Thing''),
                             (''elevation'', JNum NegZero)]) =
     Some (''{'' @ QuoteJSONString ''@context'' @ '':'' @ QuoteJSONString ''https://schema.org'' @ '','' @
           QuoteJSONString ''@type'' @ '':'' @ QuoteJSONString ''Thing'' @ '','' @
           QuoteJSONString ''elevation'' @ '':0}'') \<and>
   JSON_parse (''{'' @ QuoteJSONString ''@context'' @ '':'' @ QuoteJSONString ''https://schema.org'' @ '','' @
           QuoteJSONString ''@type'' @ '':'' @ QuoteJSONString ''Thing'' @ '','' @
           QuoteJSONString ''elevation'' @ '':0}'') =
     Some (JObj [(''@context'', JStr ''https://schema.org''), (''@type'', JStr ''Thing''),
                 (''elevation'', JNum (Finite 0))]) \<and>
   JNum (Finite 0) \<noteq> JNum NegZero"
proof -
  let ?v = "JObj [(''@context'', JStr ''https://schema.org''), (''@type'', JStr ''Thing''),
                  (''elevation'', JNum NegZero)]"
  have order: "property_order [(''@context'', a), (''@type'', b), (''elevation'', c)] =
                 [(''@context'', a), (''@type'', b), (''elevation'', c)]" for a b c :: "'a"
    by (simp add: property_order_def is_array_index_def is_digit_def)
  have v: "json_value ?v"
    by (simp add: order)
  have t: "createJsonLdScript ?v =
     Some (''{'' @ QuoteJSONString ''@context'' @ '':'' @ QuoteJSONString ''https://schema.org'' @ '','' @
           QuoteJSONString ''@type'' @ '':'' @ QuoteJSONString ''Thing'' @ '','' @
           QuoteJSONString ''elevation'' @ '':0}'')"
    by (simp add: createJsonLdScript_def JSON_stringify_def order member_text_def)
  from serializer_parse [OF v] t
  have "JSON_parse (''{'' @ QuoteJSONString ''@context'' @ '':'' @ QuoteJSONString ''https://schema.org'' @ '','' @
           QuoteJSONString ''@type'' @ '':'' @ QuoteJSONString ''Thing'' @ '','' @
           QuoteJSONString ''elevation'' @ '':0}'') = Some (positive_zeros ?v)"
    by auto
  moreover have "JSON_parse ''-0'' = Some (JNum NegZero)"
    by (simp add: JSON_parse_def skip_ws_def is_ws_def parse_number_def parse_magnitude_def
          parse_integer_part_def parse_fraction_def parse_exponent_def signed_number_def
          round64_def digits_value_def digit_value_def is_digit_def)
  ultimately show ?thesis
    using v t by simp
qed

end
